theory Spec2Isabelle
  imports Complex_Main
begin

section \<open>Shared data types (src/types.ts)\<close>

text \<open>
  JavaScript numbers are modelled as exact reals: the infinities and binary rounding
  are outside the model.  Epoch milliseconds and seconds are integers.  Record fields
  carry a short prefix because \<open>Tick\<close>, \<open>Position\<close> and \<open>Trade\<close> share field names in
  the source (\<open>symbol\<close>, \<open>qty\<close>, \<open>price\<close>, \<open>ts\<close>).

  A price in the feed can fail to be a number: the seed table has no entry for one of
  the symbols, so the price read there is \<open>undefined\<close>, and arithmetic on it gives
  \<open>NaN\<close>.  A value of JavaScript type \<open>number\<close> is therefore \<open>Num x\<close> or \<open>NaN\<close>, and a
  price slot or the price of a tick, which at run time is \<open>number | undefined\<close>, is an
  optional such value with \<open>None\<close> for \<open>undefined\<close>.  The ledger only ever receives
  prices that passed the test \<open>price > 0\<close> and keeps plain reals.
\<close>

datatype SymbolCode = EURUSD | GBPUSD | XAUUSD

datatype Side = BUY | SELL

datatype number = Num real | NaN

record Tick =
  tick_symbol :: SymbolCode
  tick_price :: "number option"
  tick_ts :: int

record Position =
  pos_symbol :: SymbolCode
  pos_qty :: real
  pos_avgPrice :: real

record Trade =
  trade_id :: string
  trade_symbol :: SymbolCode
  trade_qty :: real
  trade_price :: real
  trade_ts :: int
  trade_side :: Side

section \<open>Portfolio ledger (store/portfolioSlice)\<close>

record PortfolioState =
  cash :: real
  positions :: "SymbolCode \<Rightarrow> Position option"
  trades :: "Trade list"

definition initialState :: PortfolioState where
  "initialState = \<lparr>cash = 100000, positions = (\<lambda>_. None), trades = []\<rparr>"

record OrderPayload =
  o_symbol :: SymbolCode
  o_qty :: real
  o_price :: real

text \<open>
  \<open>prepare\<close> builds the trade of the action.  \<open>nanoid()\<close> and \<open>Date.now()\<close> are inputs
  of the model: \<open>nid\<close> is the generated id, \<open>now\<close> the clock in milliseconds.
\<close>

definition prepare :: "OrderPayload \<Rightarrow> string \<Rightarrow> int \<Rightarrow> Trade" where
  "prepare pl nid now =
     (let side = (if o_qty pl \<ge> 0 then BUY else SELL)
      in \<lparr>trade_id = nid, trade_symbol = o_symbol pl, trade_qty = \<bar>o_qty pl\<bar>,
          trade_price = o_price pl, trade_ts = now div 1000, trade_side = side\<rparr>)"

text \<open>
  The reducer.  Immer's draft mutation is explicit state passing; \<open>Math.sign\<close> is \<open>sgn\<close>,
  \<open>Math.abs\<close> is \<open>abs\<close>, \<open>unshift\<close> is \<open>#\<close>.
\<close>

definition reducer :: "PortfolioState \<Rightarrow> Trade \<Rightarrow> PortfolioState" where
  "reducer state trade =
     (let sign = (if trade_side trade = BUY then 1 else - 1);
          cost = trade_price trade * trade_qty trade * sign;
          cash' = cash state - cost;
          existing = positions state (trade_symbol trade);
          q = trade_qty trade * sign;
          positions' =
            (case existing of
               None \<Rightarrow>
                 (positions state)(trade_symbol trade \<mapsto>
                    \<lparr>pos_symbol = trade_symbol trade, pos_qty = q,
                     pos_avgPrice = trade_price trade\<rparr>)
             | Some ex \<Rightarrow>
                 (let prevQty = pos_qty ex;
                      newQty = prevQty + q
                  in if newQty = 0 then (positions state)(trade_symbol trade := None)
                     else if sgn prevQty = sgn newQty then
                       (let totalCost = pos_avgPrice ex * \<bar>prevQty\<bar> + trade_price trade * \<bar>q\<bar>
                        in (positions state)(trade_symbol trade \<mapsto>
                             ex\<lparr>pos_avgPrice := totalCost / (\<bar>prevQty\<bar> + \<bar>q\<bar>),
                                pos_qty := newQty\<rparr>))
                     else
                       (positions state)(trade_symbol trade \<mapsto>
                          (if sgn newQty \<noteq> sgn prevQty
                           then ex\<lparr>pos_qty := newQty, pos_avgPrice := trade_price trade\<rparr>
                           else ex\<lparr>pos_qty := newQty\<rparr>))))
      in \<lparr>cash = cash', positions = positions', trades = trade # trades state\<rparr>)"

definition placeOrder :: "PortfolioState \<Rightarrow> OrderPayload \<Rightarrow> string \<Rightarrow> int \<Rightarrow> PortfolioState" where
  "placeOrder state pl nid now = reducer state (prepare pl nid now)"


text \<open>
  A run of orders: each element carries the payload together with the id and clock value
  that \<open>prepare\<close> reads when the order is dispatched.
\<close>

fun placeOrders :: "PortfolioState \<Rightarrow> (OrderPayload \<times> string \<times> int) list \<Rightarrow> PortfolioState" where
  "placeOrders state [] = state"
| "placeOrders state ((pl, nid, now) # rest) = placeOrders (placeOrder state pl nid now) rest"

text \<open>
  The net traded quantity of an instrument, read off the trade log: a BUY counts with its
  magnitude, a SELL with the negated magnitude.  This is the spec's notion of the
  quantity held in an instrument, independent of the positions table.
\<close>

definition signedQty :: "Trade \<Rightarrow> real" where
  "signedQty t = (if trade_side t = BUY then trade_qty t else - trade_qty t)"

definition netQty :: "Trade list \<Rightarrow> SymbolCode \<Rightarrow> real" where
  "netQty ts s = sum_list (map signedQty (filter (\<lambda>t. trade_symbol t = s) ts))"

section \<open>Trade entry and valuation (components/Portfolio.tsx)\<close>

record TradeForm =
  form_symbol :: SymbolCode
  form_qty :: real

text \<open>
  \<open>handleTrade\<close> is the only caller of \<open>placeOrder\<close>.  \<open>last'\<close> stands for \<open>last\<close>, the market slice's
  \<open>lastPrice\<close> table; \<open>last[sym] ?? 0\<close> reads an unknown price as 0.
\<close>

definition handleTrade ::
  "TradeForm \<Rightarrow> (SymbolCode \<Rightarrow> real option) \<Rightarrow> Side \<Rightarrow> PortfolioState \<Rightarrow> string \<Rightarrow> int \<Rightarrow> PortfolioState" where
  "handleTrade form last' side state nid now =
     (let qty = (if side = BUY then \<bar>form_qty form\<bar> else - \<bar>form_qty form\<bar>);
          price = (case last' (form_symbol form) of None \<Rightarrow> 0 | Some p \<Rightarrow> p)
      in if price > 0
         then placeOrder state \<lparr>o_symbol = form_symbol form, o_qty = qty, o_price = price\<rparr> nid now
         else state)"

definition rowPnl :: "real \<Rightarrow> real \<Rightarrow> real option \<Rightarrow> real" where
  "rowPnl qty avg last' = (case last' of None \<Rightarrow> 0 | Some l \<Rightarrow> (l - avg) * qty)"

text \<open>
  \<open>Object.entries(positions)\<close> enumerates the three keys of the positions table in the
  order in which \<open>initialState\<close> lists them; \<open>reduce\<close> is a left fold.
\<close>

definition SYMBOLS :: "SymbolCode list" where
  "SYMBOLS = [EURUSD, GBPUSD, XAUUSD]"

definition calculateTotalPnl ::
  "(SymbolCode \<Rightarrow> Position option) \<Rightarrow> (SymbolCode \<Rightarrow> real option) \<Rightarrow> real" where
  "calculateTotalPnl ps lastPrices =
     foldl (\<lambda>total symbol.
              case ps symbol of
                None \<Rightarrow> total
              | Some position \<Rightarrow>
                  (case lastPrices symbol of
                     None \<Rightarrow> total
                   | Some lastPrice \<Rightarrow>
                       total + rowPnl (pos_qty position) (pos_avgPrice position) (Some lastPrice)))
           0 SYMBOLS"

record Metrics =
  equity :: real
  totalPnl :: real
  dayChange :: real
  dayChangePercent :: real
  totalValue :: real

definition portfolioMetrics :: "PortfolioState \<Rightarrow> (SymbolCode \<Rightarrow> real option) \<Rightarrow> Metrics" where
  "portfolioMetrics state last' =
     (let totalPnl' = calculateTotalPnl (positions state) last';
          totalValue' =
            foldl (\<lambda>acc sym.
                     acc + (case positions state sym of
                              None \<Rightarrow> 0
                            | Some p \<Rightarrow> pos_qty p * (case last' sym of None \<Rightarrow> 0 | Some l \<Rightarrow> l)))
                  0 [EURUSD, GBPUSD, XAUUSD];
          equity' = cash state + totalValue';
          dayChange' = totalPnl';
          dayChangePercent' = (if equity' > 0 then (dayChange' / equity') * 100 else 0)
      in \<lparr>equity = equity', totalPnl = totalPnl', dayChange = dayChange',
          dayChangePercent = dayChangePercent', totalValue = totalValue'\<rparr>)"

section \<open>Market data feed (services/feed.ts)\<close>

text \<open>
  The feed is event driven.  Its fields and the part of the browser it talks to (timers,
  sockets) form one state record; every public method and every listener is a function
  on that record, and an execution is a list of events folded over it.

  \<^item> A subscriber callback is known by its identity (a number).  What a callback does
    to the rest of the page is outside the model; whether it throws on a tick is given
    by the parameter \<open>thr\<close>.  A \<open>Set\<close> of callbacks is a duplicate-free list in
    insertion order, which is the order \<open>Set.forEach\<close> visits.
  \<^item> \<open>calls\<close> logs every callback invocation, oldest first.
  \<^item> \<open>setInterval\<close> and \<open>setTimeout\<close> hand out the handle \<open>Suc timerCount\<close>, so a handle
    is never 0 (the source tests \<open>if (this.timer)\<close>).  \<open>intervals\<close> holds the running
    interval handles, \<open>timeouts\<close> the pending timeouts with their delay.
  \<^item> Sockets are numbered in creation order; \<open>closeCalls\<close> logs \<open>ws.close()\<close>, \<open>sent\<close>
    logs \<open>ws.send\<close>.
  \<^item> \<open>maxReconnectAttempts\<close> and \<open>reconnectDelay\<close> are never assigned after
    construction and are constants here.
\<close>

type_synonym Subscriber = nat

record World =
  subs :: "SymbolCode \<Rightarrow> Subscriber list"
  timer :: "nat option"
  prices :: "SymbolCode \<Rightarrow> number option"
  ws :: "nat option"
  usingWs :: bool
  reconnectAttempts :: nat
  isConnected :: bool
  timerCount :: nat
  intervals :: "nat list"
  timeouts :: "(nat \<times> nat) list"
  socketCount :: nat
  closeCalls :: "nat list"
  sent :: "(nat \<times> string) list"
  calls :: "(Subscriber \<times> Tick) list"

definition maxReconnectAttempts :: nat where
  "maxReconnectAttempts = 5"

definition reconnectDelay :: nat where
  "reconnectDelay = 1000"

text \<open>
  The seed prices that \<open>feed.ts\<close> imports from \<open>../constants\<close>, that is
  \<open>src/constants.ts\<close>: the table there has the keys \<open>EURUSD\<close>, \<open>GBPUSD\<close> and \<open>ETHUSDT\<close>.
  Every read of \<open>this.prices\<close> is by a \<open>SymbolCode\<close>, so the entry \<open>ETHUSDT\<close> is never
  read, and the read at \<open>XAUUSD\<close> finds no entry.
\<close>

definition STARTING_PRICES :: "SymbolCode \<Rightarrow> number option" where
  "STARTING_PRICES s =
     (case s of EURUSD \<Rightarrow> Some (Num 1.0850) | GBPUSD \<Rightarrow> Some (Num 1.2700) | XAUUSD \<Rightarrow> None)"

text \<open>
  \<open>FINNHUB_KEY\<close> is the environment's key or else a non-empty literal, so it is truthy
  in every configuration; the literal stands for both.
\<close>

definition FINNHUB_KEY :: string where
  "FINNHUB_KEY = ''d1ehg3pr01qjssrk5gkgd1ehg3pr01qjssrk5gl0''"

definition mapToFinnhub :: "SymbolCode \<Rightarrow> string" where
  "mapToFinnhub s = (case s of EURUSD \<Rightarrow> ''OANDA:EUR_USD'' | GBPUSD \<Rightarrow> ''OANDA:GBP_USD''
                             | XAUUSD \<Rightarrow> ''OANDA:XAU_USD'')"

definition mapFromFinnhub :: "string \<Rightarrow> SymbolCode option" where
  "mapFromFinnhub k =
     (if k = ''OANDA:EUR_USD'' then Some EURUSD
      else if k = ''OANDA:GBP_USD'' then Some GBPUSD
      else if k = ''OANDA:XAU_USD'' then Some XAUUSD
      else None)"

definition newFeed :: World where
  "newFeed =
     \<lparr>subs = (\<lambda>_. []), timer = None, prices = STARTING_PRICES, ws = None, usingWs = False,
      reconnectAttempts = 0, isConnected = False,
      timerCount = 0, intervals = [], timeouts = [], socketCount = 0, closeCalls = [],
      sent = [], calls = []\<rparr>"

text \<open>The truthiness test \<open>if (this.timer)\<close> on \<open>number | undefined\<close>.\<close>

definition truthy :: "nat option \<Rightarrow> bool" where
  "truthy h = (case h of None \<Rightarrow> False | Some n \<Rightarrow> n \<noteq> 0)"

text \<open>
  \<open>this.subs[symbol].forEach(cb => cb(tick))\<close>: the callbacks run in order; an exception
  of one of them leaves \<open>forEach\<close> at once.  The result is the extended call log and
  whether an exception escaped.
\<close>

fun forEach_cb ::
  "(Subscriber \<Rightarrow> Tick \<Rightarrow> bool) \<Rightarrow> Subscriber list \<Rightarrow> Tick \<Rightarrow> (Subscriber \<times> Tick) list
     \<Rightarrow> (Subscriber \<times> Tick) list \<times> bool" where
  "forEach_cb thr [] tick seen = (seen, False)"
| "forEach_cb thr (cb # cbs) tick seen =
     (if thr cb tick then (seen @ [(cb, tick)], True)
      else forEach_cb thr cbs tick (seen @ [(cb, tick)]))"

text \<open>
  \<open>Number(next.toFixed(5))\<close>: the nearest multiple of \<open>10\<^sup>-\<^sup>5\<close>, a tie going to the
  larger magnitude; from \<open>10\<^sup>2\<^sup>1\<close> on \<open>toFixed\<close> prints the number itself.
\<close>

definition toFixed5 :: "real \<Rightarrow> real" where
  "toFixed5 x =
     (if \<bar>x\<bar> \<ge> 10 ^ 21 then x
      else if x < 0 then - (real_of_int \<lfloor>- x * 100000 + 1 / 2\<rfloor> / 100000)
      else real_of_int \<lfloor>x * 100000 + 1 / 2\<rfloor> / 100000)"

text \<open>On \<open>NaN\<close>, \<open>toFixed\<close> prints \<open>NaN\<close> and \<open>Number\<close> reads it back.\<close>

definition Number_toFixed5 :: "number \<Rightarrow> number" where
  "Number_toFixed5 v = (case v of Num x \<Rightarrow> Num (toFixed5 x) | NaN \<Rightarrow> NaN)"

definition startSim :: "World \<Rightarrow> World" where
  "startSim w =
     (if truthy (timer w) then w
      else w\<lparr>timer := Some (Suc (timerCount w)),
             intervals := intervals w @ [Suc (timerCount w)],
             timerCount := Suc (timerCount w)\<rparr>)"

text \<open>
  \<open>initWs\<close> when \<open>new WebSocket(url)\<close> returns: the socket gets the next number and the
  four listeners.  When the constructor throws, \<open>initWs\<close> is left before any assignment;
  the callers below take that case from the flag \<open>ctorThrows\<close>.
\<close>

definition initWs :: "World \<Rightarrow> World" where
  "initWs w = w\<lparr>ws := Some (socketCount w), socketCount := Suc (socketCount w)\<rparr>"

definition start :: "bool \<Rightarrow> World \<Rightarrow> World" where
  "start ctorThrows w =
     (if FINNHUB_KEY \<noteq> [] \<and> ws w = None then
        (if ctorThrows then startSim w
         else (initWs w)\<lparr>usingWs := True\<rparr>)
      else startSim w)"

definition cleanupWs :: "World \<Rightarrow> World" where
  "cleanupWs w =
     (let w1 = (case ws w of
                  None \<Rightarrow> w
                | Some i \<Rightarrow> w\<lparr>closeCalls := closeCalls w @ [i], ws := None\<rparr>)
      in w1\<lparr>usingWs := False, isConnected := False\<rparr>)"

definition handleReconnect :: "World \<Rightarrow> World" where
  "handleReconnect w =
     (if reconnectAttempts w < maxReconnectAttempts then
        (let w1 = w\<lparr>reconnectAttempts := reconnectAttempts w + 1\<rparr>
         in w1\<lparr>timeouts := timeouts w1 @ [(Suc (timerCount w1), reconnectDelay * reconnectAttempts w1)],
               timerCount := Suc (timerCount w1)\<rparr>)
      else startSim w)"

text \<open>The body of the reconnect timeout.\<close>

definition reconnectTimeout :: "bool \<Rightarrow> World \<Rightarrow> World" where
  "reconnectTimeout ctorThrows w =
     (if \<not> isConnected w then (if ctorThrows then w else initWs w) else w)"

record ConnectionStatus =
  st_isConnected :: bool
  st_usingWebSocket :: bool
  st_reconnectAttempts :: nat

definition getConnectionStatus :: "World \<Rightarrow> ConnectionStatus" where
  "getConnectionStatus w =
     \<lparr>st_isConnected = isConnected w, st_usingWebSocket = usingWs w,
      st_reconnectAttempts = reconnectAttempts w\<rparr>"

definition stop :: "World \<Rightarrow> World" where
  "stop w =
     (let w1 = (case timer w of
                  None \<Rightarrow> w
                | Some t \<Rightarrow> if t \<noteq> 0 then w\<lparr>intervals := removeAll t (intervals w), timer := None\<rparr>
                            else w)
      in if ws w1 \<noteq> None then cleanupWs w1 else w1)"

definition subscribe ::
  "(Subscriber \<Rightarrow> Tick \<Rightarrow> bool) \<Rightarrow> SymbolCode \<Rightarrow> Subscriber \<Rightarrow> int \<Rightarrow> World \<Rightarrow> World" where
  "subscribe thr symbol cb now w =
     (let w1 = w\<lparr>subs := (subs w)(symbol := (if cb \<in> set (subs w symbol) then subs w symbol
                                                else subs w symbol @ [cb]))\<rparr>
      in w1\<lparr>calls := calls w1 @
                [(cb, \<lparr>tick_symbol = symbol, tick_price = prices w1 symbol, tick_ts = now div 1000\<rparr>)]\<rparr>)"

text \<open>The function that \<open>subscribe\<close> returns.\<close>

definition unsubscribe :: "SymbolCode \<Rightarrow> Subscriber \<Rightarrow> World \<Rightarrow> World" where
  "unsubscribe symbol cb w = w\<lparr>subs := (subs w)(symbol := removeAll cb (subs w symbol))\<rparr>"

subsection \<open>Socket listeners\<close>

text \<open>
  A received frame after \<open>JSON.parse\<close>: unparsable text, a trade message with its data
  array, an error message, or anything else.  A data item carries the fields the handler
  reads, already of the types it expects; an identifier that is a member name of
  \<open>Object.prototype\<close> is outside the model.
\<close>

record TradeItem =
  d_s :: string
  d_p :: real
  d_t :: int

datatype Msg = Malformed | TradeMsg "TradeItem list" | ErrorMsg | OtherMsg

definition onOpen :: "nat \<Rightarrow> World \<Rightarrow> World" where
  "onOpen i w =
     w\<lparr>isConnected := True, reconnectAttempts := 0,
       sent := sent w @ map (\<lambda>s. (i, mapToFinnhub s)) SYMBOLS\<rparr>"

text \<open>
  \<open>msg.data.forEach\<close>: an exception of a callback leaves this loop as well and is caught
  by the handler's \<open>try\<close>; the items after it are not looked at.
\<close>

fun forEach_data :: "(Subscriber \<Rightarrow> Tick \<Rightarrow> bool) \<Rightarrow> TradeItem list \<Rightarrow> World \<Rightarrow> World" where
  "forEach_data thr [] w = w"
| "forEach_data thr (d # ds) w =
     (case mapFromFinnhub (d_s d) of
        None \<Rightarrow> forEach_data thr ds w
      | Some s \<Rightarrow>
          (let tick = \<lparr>tick_symbol = s, tick_price = Some (Num (d_p d)),
                       tick_ts = d_t d div 1000\<rparr>;
               w1 = w\<lparr>prices := (prices w)(s := tick_price tick)\<rparr>;
               r = forEach_cb thr (subs w1 s) tick (calls w1);
               w2 = w1\<lparr>calls := fst r\<rparr>
           in if snd r then w2 else forEach_data thr ds w2))"

definition onMessage :: "(Subscriber \<Rightarrow> Tick \<Rightarrow> bool) \<Rightarrow> Msg \<Rightarrow> World \<Rightarrow> World" where
  "onMessage thr msg w =
     (case msg of
        Malformed \<Rightarrow> w
      | TradeMsg ds \<Rightarrow> forEach_data thr ds w
      | ErrorMsg \<Rightarrow> w
      | OtherMsg \<Rightarrow> w)"

definition onError :: "World \<Rightarrow> World" where
  "onError w = handleReconnect (w\<lparr>isConnected := False\<rparr>)"

definition onClose :: "World \<Rightarrow> World" where
  "onClose w = handleReconnect (cleanupWs (w\<lparr>isConnected := False\<rparr>))"

subsection \<open>The synthetic generator\<close>

text \<open>
  \<open>last * (1 + (Math.random() - 0.5) * vol)\<close>: the product with \<open>undefined\<close> or \<open>NaN\<close> is
  \<open>NaN\<close>.
\<close>

definition simNext :: "SymbolCode \<Rightarrow> number option \<Rightarrow> real \<Rightarrow> number" where
  "simNext symbol last' r =
     (let vol = (if symbol = XAUUSD then 0.004 else 0.0003)
      in case last' of
           Some (Num p) \<Rightarrow> Num (p * (1 + (r - 0.5) * vol))
         | Some NaN \<Rightarrow> NaN
         | None \<Rightarrow> NaN)"

text \<open>
  The interval callback: \<open>rnd symbol\<close> is the value \<open>Math.random()\<close> returns for that
  symbol in this round.  An exception of a callback leaves the whole callback; the
  symbols after it are not updated in this round.
\<close>

fun forEach_symbol ::
  "(Subscriber \<Rightarrow> Tick \<Rightarrow> bool) \<Rightarrow> (SymbolCode \<Rightarrow> real) \<Rightarrow> int \<Rightarrow> SymbolCode list \<Rightarrow> World \<Rightarrow> World" where
  "forEach_symbol thr rnd ts [] w = w"
| "forEach_symbol thr rnd ts (symbol # rest) w =
     (let last' = prices w symbol;
          next = simNext symbol last' (rnd symbol);
          w1 = w\<lparr>prices := (prices w)(symbol := Some next)\<rparr>;
          tick = \<lparr>tick_symbol = symbol, tick_price = Some (Number_toFixed5 next), tick_ts = ts\<rparr>;
          r = forEach_cb thr (subs w1 symbol) tick (calls w1);
          w2 = w1\<lparr>calls := fst r\<rparr>
      in if snd r then w2 else forEach_symbol thr rnd ts rest w2)"

definition simTick :: "(Subscriber \<Rightarrow> Tick \<Rightarrow> bool) \<Rightarrow> (SymbolCode \<Rightarrow> real) \<Rightarrow> int \<Rightarrow> World \<Rightarrow> World" where
  "simTick thr rnd now w = forEach_symbol thr rnd (now div 1000) SYMBOLS w"

subsection \<open>Executions\<close>

text \<open>
  What can happen to a feed: a call of a public method, an event on a socket that
  \<open>initWs\<close> created, a pending timeout coming due, a running interval coming due.  The
  flag of \<open>Start\<close> and \<open>TimeoutFires\<close> says whether \<open>new WebSocket\<close> throws this time.
  Events on sockets or timers that do not exist are ignored.
\<close>

datatype Event =
    Start bool
  | Stop
  | Subscribe SymbolCode Subscriber int
  | Unsubscribe SymbolCode Subscriber
  | WsOpen nat
  | WsMessage nat Msg
  | WsError nat
  | WsClose nat
  | TimeoutFires nat bool
  | IntervalFires nat "SymbolCode \<Rightarrow> real" int

fun step :: "(Subscriber \<Rightarrow> Tick \<Rightarrow> bool) \<Rightarrow> World \<Rightarrow> Event \<Rightarrow> World" where
  "step thr w (Start ctorThrows) = start ctorThrows w"
| "step thr w Stop = stop w"
| "step thr w (Subscribe symbol cb now) = subscribe thr symbol cb now w"
| "step thr w (Unsubscribe symbol cb) = unsubscribe symbol cb w"
| "step thr w (WsOpen i) = (if i < socketCount w then onOpen i w else w)"
| "step thr w (WsMessage i msg) = (if i < socketCount w then onMessage thr msg w else w)"
| "step thr w (WsError i) = (if i < socketCount w then onError w else w)"
| "step thr w (WsClose i) = (if i < socketCount w then onClose w else w)"
| "step thr w (TimeoutFires t ctorThrows) =
     (if t \<in> set (map fst (timeouts w))
      then reconnectTimeout ctorThrows (w\<lparr>timeouts := filter (\<lambda>p. fst p \<noteq> t) (timeouts w)\<rparr>)
      else w)"
| "step thr w (IntervalFires t rnd now) =
     (if t \<in> set (intervals w) then simTick thr rnd now w else w)"

definition run :: "(Subscriber \<Rightarrow> Tick \<Rightarrow> bool) \<Rightarrow> World \<Rightarrow> Event list \<Rightarrow> World" where
  "run thr w evs = foldl (step thr) w evs"

section \<open>Specification-side notions and example inputs\<close>

text \<open>
  The update of a position as the specification words it (steps 3 to 7 of order
  execution), on a position given as its quantity and average, to be compared with what
  \<open>placeOrder\<close> does.  \<open>undefAvg\<close> is the average the specification leaves undefined when
  there is no prior position.
\<close>

definition spec_position :: "real \<Rightarrow> (real \<times> real) option \<Rightarrow> real \<Rightarrow> real \<Rightarrow> (real \<times> real) option" where
  "spec_position undefAvg prior signedQuantity price =
     (let prevQty = (case prior of None \<Rightarrow> 0 | Some p \<Rightarrow> fst p);
          prevAvg = (case prior of None \<Rightarrow> undefAvg | Some p \<Rightarrow> snd p);
          newQty = prevQty + signedQuantity
      in if newQty = 0 then None
         else if sgn newQty = sgn prevQty \<or> prior = None then
           Some (newQty,
                 (prevAvg * \<bar>prevQty\<bar> + price * \<bar>signedQuantity\<bar>) / (\<bar>prevQty\<bar> + \<bar>signedQuantity\<bar>))
         else Some (newQty, price))"

definition qtyAvg :: "Position option \<Rightarrow> (real \<times> real) option" where
  "qtyAvg po = map_option (\<lambda>p. (pos_qty p, pos_avgPrice p)) po"

text \<open>
  The ledger invariant: a position is present exactly for the instruments whose net
  traded quantity is not 0, and then holds that quantity.
\<close>

definition ledger_inv :: "PortfolioState \<Rightarrow> bool" where
  "ledger_inv st =
     (\<forall>s. case positions st s of
             None \<Rightarrow> netQty (trades st) s = 0
           | Some p \<Rightarrow> pos_qty p = netQty (trades st) s \<and> pos_qty p \<noteq> 0)"

text \<open>The market slice's initial \<open>lastPrice\<close> table: no price is known.\<close>

definition initialLastPrice :: "SymbolCode \<Rightarrow> real option" where
  "initialLastPrice s = None"

definition examplePrices :: "SymbolCode \<Rightarrow> real option" where
  "examplePrices s = (if s = EURUSD then Some 1.09 else None)"

text \<open>Callback behaviours and random draws used in the examples.\<close>

definition neverThrows :: "Subscriber \<Rightarrow> Tick \<Rightarrow> bool" where
  "neverThrows cb tick = False"

definition cb1Throws :: "Subscriber \<Rightarrow> Tick \<Rightarrow> bool" where
  "cb1Throws cb tick = (cb = 1)"

definition zeroDraws :: "SymbolCode \<Rightarrow> real" where
  "zeroDraws s = 0"

definition halfDraws :: "SymbolCode \<Rightarrow> real" where
  "halfDraws s = 1 / 2"

text \<open>
  The backoff invariant: the attempt counter never exceeds the cap, and every pending
  reconnect timeout has the delay \<open>reconnectDelay * n\<close> of an attempt \<open>n\<close> between 1 and
  the cap.
\<close>

definition backoff_inv :: "World \<Rightarrow> bool" where
  "backoff_inv w =
     (reconnectAttempts w \<le> maxReconnectAttempts
      \<and> list_all (\<lambda>(t, d). d \<in> set (map (\<lambda>n. reconnectDelay * n) [1..<Suc maxReconnectAttempts]))
           (timeouts w))"

text \<open>
  What the generator may assume about its inputs: \<open>Math.random()\<close> lies in \<open>[0, 1)\<close>, and
  a live trade carries a positive price.
\<close>

fun positive_inputs :: "Event \<Rightarrow> bool" where
  "positive_inputs (IntervalFires t rnd now) = list_all (\<lambda>s. 0 \<le> rnd s \<and> rnd s < 1) SYMBOLS"
| "positive_inputs (WsMessage i (TradeMsg ds)) = list_all (\<lambda>d. 0 < d_p d) ds"
| "positive_inputs _ = True"

text \<open>
  A price slot that holds a positive number; a tick price that is a number and at least
  0.  The price invariant of an instrument: its slot holds a positive number and every
  tick delivered for it carries a number that is at least 0.
\<close>

definition positive :: "number option \<Rightarrow> bool" where
  "positive v = (case v of Some (Num p) \<Rightarrow> 0 < p | Some NaN \<Rightarrow> False | None \<Rightarrow> False)"

definition nonneg :: "number option \<Rightarrow> bool" where
  "nonneg v = (case v of Some (Num p) \<Rightarrow> 0 \<le> p | Some NaN \<Rightarrow> False | None \<Rightarrow> False)"

definition price_inv :: "SymbolCode \<Rightarrow> World \<Rightarrow> bool" where
  "price_inv s w =
     (positive (prices w s)
      \<and> list_all (\<lambda>(cb, tick). tick_symbol tick \<noteq> s \<or> nonneg (tick_price tick)) (calls w))"

section \<open>Ledger: order execution\<close>

lemma signedQty_prepare: "signedQty (prepare pl nid now) = o_qty pl"
  by (simp add: prepare_def Let_def signedQty_def)

lemma trades_placeOrder: "trades (placeOrder st pl nid now) = prepare pl nid now # trades st"
  by (simp add: placeOrder_def reducer_def Let_def)

lemma cash_placeOrder: "cash (placeOrder st pl nid now) = cash st - o_price pl * o_qty pl"
  by (simp add: placeOrder_def reducer_def Let_def prepare_def)

lemma positions_placeOrder_other:
  "s \<noteq> o_symbol pl \<Longrightarrow> positions (placeOrder st pl nid now) s = positions st s"
  by (simp add: placeOrder_def reducer_def Let_def prepare_def split: option.splits)

lemma positions_placeOrder_same:
  "positions (placeOrder st pl nid now) (o_symbol pl) =
     (case positions st (o_symbol pl) of
        None \<Rightarrow> Some \<lparr>pos_symbol = o_symbol pl, pos_qty = o_qty pl, pos_avgPrice = o_price pl\<rparr>
      | Some ex \<Rightarrow>
          if pos_qty ex + o_qty pl = 0 then None
          else if sgn (pos_qty ex) = sgn (pos_qty ex + o_qty pl) then
            Some (ex\<lparr>pos_avgPrice :=
                        (pos_avgPrice ex * \<bar>pos_qty ex\<bar> + o_price pl * \<bar>o_qty pl\<bar>)
                          / (\<bar>pos_qty ex\<bar> + \<bar>o_qty pl\<bar>),
                     pos_qty := pos_qty ex + o_qty pl\<rparr>)
          else Some (ex\<lparr>pos_qty := pos_qty ex + o_qty pl, pos_avgPrice := o_price pl\<rparr>))"
  by (simp add: placeOrder_def reducer_def Let_def prepare_def split: option.splits)

lemma netQty_Cons:
  "netQty (t # ts) s = (if trade_symbol t = s then signedQty t + netQty ts s else netQty ts s)"
  by (simp add: netQty_def)

lemma netQty_placeOrder:
  "netQty (trades (placeOrder st pl nid now)) s =
     (if s = o_symbol pl then o_qty pl + netQty (trades st) s else netQty (trades st) s)"
  by (auto simp: trades_placeOrder netQty_Cons signedQty_prepare) (simp_all add: prepare_def Let_def)

lemma ledger_inv_placeOrder:
  assumes "ledger_inv st" "o_qty pl \<noteq> 0"
  shows "ledger_inv (placeOrder st pl nid now)"
  unfolding ledger_inv_def
proof
  fix s
  from assms(1) have I: "case positions st s of
                          None \<Rightarrow> netQty (trades st) s = 0
                        | Some p \<Rightarrow> pos_qty p = netQty (trades st) s \<and> pos_qty p \<noteq> 0"
    by (simp add: ledger_inv_def)
  show "case positions (placeOrder st pl nid now) s of
          None \<Rightarrow> netQty (trades (placeOrder st pl nid now)) s = 0
        | Some p \<Rightarrow> pos_qty p = netQty (trades (placeOrder st pl nid now)) s \<and> pos_qty p \<noteq> 0"
  proof (cases "s = o_symbol pl")
    case False
    with I show ?thesis
      by (simp add: positions_placeOrder_other netQty_placeOrder split: option.splits)
  next
    case True
    with I assms(2) show ?thesis
      by (auto simp: positions_placeOrder_same netQty_placeOrder split: option.splits)
  qed
qed

lemma ledger_inv_initial: "ledger_inv initialState"
  by (simp add: ledger_inv_def initialState_def netQty_def)

lemma ledger_inv_placeOrders:
  "ledger_inv st \<Longrightarrow> \<forall>(pl, nid, now) \<in> set orders. o_qty pl \<noteq> 0
     \<Longrightarrow> ledger_inv (placeOrders st orders)"
proof (induction orders arbitrary: st)
  case Nil
  then show ?case by simp
next
  case (Cons a orders)
  obtain pl nid now where a: "a = (pl, nid, now)" by (cases a) auto
  with Cons.prems have "ledger_inv (placeOrder st pl nid now)"
    by (auto intro: ledger_inv_placeOrder)
  with Cons a show ?case by simp
qed

text \<open>
  C1, as stated, fails: \<open>placeOrder\<close> validates nothing.  A BUY of 1000 at the price -1
  on the initial ledger is executed: cash rises to 101000, a position and a trade are
  recorded.
\<close>

theorem placeOrder_executes_nonpositive_price:
  "o_price \<lparr>o_symbol = EURUSD, o_qty = 1000, o_price = - 1\<rparr> \<le> 0
   \<and> placeOrder initialState \<lparr>o_symbol = EURUSD, o_qty = 1000, o_price = - 1\<rparr> ''t1'' 0
       \<noteq> initialState
   \<and> cash (placeOrder initialState \<lparr>o_symbol = EURUSD, o_qty = 1000, o_price = - 1\<rparr> ''t1'' 0)
       = 101000
   \<and> trades (placeOrder initialState \<lparr>o_symbol = EURUSD, o_qty = 1000, o_price = - 1\<rparr> ''t1'' 0)
       = [\<lparr>trade_id = ''t1'', trade_symbol = EURUSD, trade_qty = 1000, trade_price = - 1,
           trade_ts = 0, trade_side = BUY\<rparr>]
   \<and> positions (placeOrder initialState \<lparr>o_symbol = EURUSD, o_qty = 1000, o_price = - 1\<rparr> ''t1'' 0)
       EURUSD = Some \<lparr>pos_symbol = EURUSD, pos_qty = 1000, pos_avgPrice = - 1\<rparr>"
proof -
  have neq: "\<And>a b :: PortfolioState. cash a \<noteq> cash b \<Longrightarrow> a \<noteq> b"
    by auto
  show ?thesis
    by (auto intro!: neq simp: placeOrder_def reducer_def prepare_def initialState_def Let_def)
qed

text \<open>
  C1 (amended): the guard sits in the caller.  \<open>handleTrade\<close> dispatches nothing and
  leaves the ledger as it is when the last price of the instrument is unknown or not
  positive; \<open>placeOrder\<close> itself never rejects: every call changes the ledger.
\<close>

theorem handleTrade_rejects_without_positive_price:
  assumes "case last' (form_symbol form) of None \<Rightarrow> True | Some p \<Rightarrow> p \<le> 0"
  shows "handleTrade form last' side state nid now = state
         \<and> placeOrder state pl nid now \<noteq> state"
proof
  show "handleTrade form last' side state nid now = state"
    using assms by (simp add: handleTrade_def Let_def split: option.splits)
next
  have "length (trades (placeOrder state pl nid now)) \<noteq> length (trades state)"
    by (simp add: trades_placeOrder)
  then show "placeOrder state pl nid now \<noteq> state"
    by auto
qed

theorem handleTrade_rejects_without_positive_price_witness:
  "(case initialLastPrice (form_symbol \<lparr>form_symbol = EURUSD, form_qty = 1000\<rparr>) of
      None \<Rightarrow> True | Some p \<Rightarrow> p \<le> 0)
   \<and> handleTrade \<lparr>form_symbol = EURUSD, form_qty = 1000\<rparr> initialLastPrice BUY initialState ''t1'' 0
       = initialState
   \<and> placeOrder initialState \<lparr>o_symbol = EURUSD, o_qty = 0, o_price = 1.0850\<rparr> ''t1'' 0
       \<noteq> initialState"
proof -
  have h: "case initialLastPrice (form_symbol \<lparr>form_symbol = EURUSD, form_qty = 1000\<rparr>) of
             None \<Rightarrow> True | Some p \<Rightarrow> p \<le> 0"
    by (simp add: initialLastPrice_def)
  show ?thesis
    using h handleTrade_rejects_without_positive_price
        [of initialLastPrice "\<lparr>form_symbol = EURUSD, form_qty = 1000\<rparr>" BUY initialState
            "''t1''" 0 "\<lparr>o_symbol = EURUSD, o_qty = 0, o_price = 1.0850\<rparr>"]
    by simp
qed

text \<open>
  C2: the code does not do what the claim says.  An order of quantity 0 on an
  instrument without a position is executed as a BUY of size 0, and the branch for a
  first trade stores a position whose quantity is 0, although the branch for an
  existing position removes a position whose new quantity is 0.  The trade form
  reaches this: with quantity 0 in the form and a known price, \<open>handleTrade\<close> dispatches
  the order.  Closing a position of 1000 by a SELL of 1000, in contrast, removes it.
\<close>

theorem zero_quantity_order_creates_empty_position:
  "positions (placeOrders initialState
                [(\<lparr>o_symbol = EURUSD, o_qty = 0, o_price = 1.0850\<rparr>, ''t1'', 0)]) EURUSD
     = Some \<lparr>pos_symbol = EURUSD, pos_qty = 0, pos_avgPrice = 1.0850\<rparr>
   \<and> netQty (trades (placeOrders initialState
                [(\<lparr>o_symbol = EURUSD, o_qty = 0, o_price = 1.0850\<rparr>, ''t1'', 0)])) EURUSD = 0
   \<and> positions (handleTrade \<lparr>form_symbol = EURUSD, form_qty = 0\<rparr> examplePrices BUY
                  initialState ''t1'' 0) EURUSD
     = Some \<lparr>pos_symbol = EURUSD, pos_qty = 0, pos_avgPrice = 1.09\<rparr>
   \<and> positions (placeOrders initialState
                [(\<lparr>o_symbol = EURUSD, o_qty = 1000, o_price = 1.0800\<rparr>, ''t1'', 0),
                 (\<lparr>o_symbol = EURUSD, o_qty = - 1000, o_price = 1.0850\<rparr>, ''t2'', 1000)]) EURUSD
     = None"
  by (simp add: handleTrade_def examplePrices_def placeOrder_def reducer_def prepare_def
        initialState_def Let_def netQty_def signedQty_def)

text \<open>
  Apart from orders of quantity 0 the ledger keeps the invariant: for every sequence of
  orders of non-zero quantity from the initial ledger, a position is present exactly
  when the net traded quantity of the instrument is not 0, and then holds that quantity.
\<close>

theorem position_present_iff_quantity_nonzero:
  assumes "list_all (\<lambda>(pl, nid, now). o_qty pl \<noteq> 0) orders"
  shows "(positions (placeOrders initialState orders) s \<noteq> None)
           = (netQty (trades (placeOrders initialState orders)) s \<noteq> 0)
         \<and> (case positions (placeOrders initialState orders) s of
              None \<Rightarrow> True
            | Some p \<Rightarrow> pos_qty p = netQty (trades (placeOrders initialState orders)) s
                         \<and> pos_qty p \<noteq> 0)"
proof -
  from assms have "\<forall>(pl, nid, now) \<in> set orders. o_qty pl \<noteq> 0"
    by (simp add: list_all_iff)
  then have "ledger_inv (placeOrders initialState orders)"
    by (rule ledger_inv_placeOrders [OF ledger_inv_initial])
  then have "case positions (placeOrders initialState orders) s of
               None \<Rightarrow> netQty (trades (placeOrders initialState orders)) s = 0
             | Some p \<Rightarrow> pos_qty p = netQty (trades (placeOrders initialState orders)) s
                          \<and> pos_qty p \<noteq> 0"
    by (simp add: ledger_inv_def)
  then show ?thesis
    by (simp split: option.splits)
qed

theorem position_present_iff_quantity_nonzero_witness:
  "list_all (\<lambda>(pl, nid, now). o_qty pl \<noteq> 0)
     [(\<lparr>o_symbol = EURUSD, o_qty = 1000, o_price = 1.0800\<rparr>, ''t1'', 0),
      (\<lparr>o_symbol = EURUSD, o_qty = - 1000, o_price = 1.0850\<rparr>, ''t2'', 1000)]
   \<and> positions (placeOrders initialState
       [(\<lparr>o_symbol = EURUSD, o_qty = 1000, o_price = 1.0800\<rparr>, ''t1'', 0),
        (\<lparr>o_symbol = EURUSD, o_qty = - 1000, o_price = 1.0850\<rparr>, ''t2'', 1000)]) EURUSD = None
   \<and> netQty (trades (placeOrders initialState
       [(\<lparr>o_symbol = EURUSD, o_qty = 1000, o_price = 1.0800\<rparr>, ''t1'', 0),
        (\<lparr>o_symbol = EURUSD, o_qty = - 1000, o_price = 1.0850\<rparr>, ''t2'', 1000)])) EURUSD = 0"
proof -
  have h: "list_all (\<lambda>(pl, nid, now). o_qty pl \<noteq> 0)
     [(\<lparr>o_symbol = EURUSD, o_qty = 1000, o_price = 1.0800\<rparr>, ''t1'', 0),
      (\<lparr>o_symbol = EURUSD, o_qty = - 1000, o_price = 1.0850\<rparr>, ''t2'', 1000)]"
    by simp
  have n: "netQty (trades (placeOrders initialState
       [(\<lparr>o_symbol = EURUSD, o_qty = 1000, o_price = 1.0800\<rparr>, ''t1'', 0),
        (\<lparr>o_symbol = EURUSD, o_qty = - 1000, o_price = 1.0850\<rparr>, ''t2'', 1000)])) EURUSD = 0"
    by (simp add: placeOrder_def reducer_def prepare_def initialState_def Let_def netQty_def
          signedQty_def)
  from position_present_iff_quantity_nonzero [OF h, of EURUSD] n h show ?thesis
    by simp
qed

text \<open>
  C3: for an order with \<open>price > 0\<close> and \<open>signedQuantity \<noteq> 0\<close>, on any ledger, cash
  decreases by exactly \<open>price * signedQuantity\<close>, and the position of the instrument
  (quantity and average) is what the specification's update yields: the blend when the
  new quantity has the sign of the old one or there was no position, the order's price
  when the direction flips, no position when the new quantity is 0.
\<close>

theorem placeOrder_follows_spec_update:
  assumes "o_price pl > 0" and "o_qty pl \<noteq> 0"
  shows "cash (placeOrder st pl nid now) = cash st - o_price pl * o_qty pl
       \<and> qtyAvg (positions (placeOrder st pl nid now) (o_symbol pl))
           = spec_position undefAvg (qtyAvg (positions st (o_symbol pl))) (o_qty pl) (o_price pl)"
  using assms
  by (auto simp: cash_placeOrder positions_placeOrder_same qtyAvg_def spec_position_def Let_def
           split: option.splits)

theorem placeOrder_follows_spec_update_witness:
  "o_price \<lparr>o_symbol = EURUSD, o_qty = - 1500, o_price = 1.0900\<rparr> > 0
   \<and> o_qty \<lparr>o_symbol = EURUSD, o_qty = - 1500, o_price = 1.0900\<rparr> \<noteq> 0
   \<and> cash (placeOrder
             (placeOrder initialState \<lparr>o_symbol = EURUSD, o_qty = 1000, o_price = 1.0800\<rparr> ''t1'' 0)
             \<lparr>o_symbol = EURUSD, o_qty = - 1500, o_price = 1.0900\<rparr> ''t2'' 1000)
       = 100000 - 1080 + 1635
   \<and> qtyAvg (positions (placeOrder
             (placeOrder initialState \<lparr>o_symbol = EURUSD, o_qty = 1000, o_price = 1.0800\<rparr> ''t1'' 0)
             \<lparr>o_symbol = EURUSD, o_qty = - 1500, o_price = 1.0900\<rparr> ''t2'' 1000) EURUSD)
       = Some (- 500, 1.0900)"
  using placeOrder_follows_spec_update
      [of "\<lparr>o_symbol = EURUSD, o_qty = - 1500, o_price = 1.0900\<rparr>"
          "placeOrder initialState \<lparr>o_symbol = EURUSD, o_qty = 1000, o_price = 1.0800\<rparr> ''t1'' 0"
          "''t2''" 1000 0]
  by (simp add: placeOrder_def reducer_def prepare_def initialState_def Let_def qtyAvg_def
        spec_position_def)

text \<open>
  C10: one call of \<open>placeOrder\<close> puts exactly one trade, the one \<open>prepare\<close> built, in
  front of the log and leaves the log behind it as it was; the position of every other
  instrument is unchanged; the ledger after the call is the ledger before it with new
  values for cash, for the position of the order's symbol and for the log, and nothing
  else.
\<close>

theorem placeOrder_frame:
  "trades (placeOrder st pl nid now) = prepare pl nid now # trades st
   \<and> length (trades (placeOrder st pl nid now)) = Suc (length (trades st))
   \<and> (\<forall>s. s \<noteq> o_symbol pl \<longrightarrow> positions (placeOrder st pl nid now) s = positions st s)
   \<and> placeOrder st pl nid now =
       st\<lparr>cash := cash (placeOrder st pl nid now),
          positions := (positions st)
             (o_symbol pl := positions (placeOrder st pl nid now) (o_symbol pl)),
          trades := prepare pl nid now # trades st\<rparr>"
proof -
  have "placeOrder st pl nid now =
       st\<lparr>cash := cash (placeOrder st pl nid now),
          positions := (positions st)
             (o_symbol pl := positions (placeOrder st pl nid now) (o_symbol pl)),
          trades := prepare pl nid now # trades st\<rparr>"
    by (simp add: placeOrder_def reducer_def Let_def prepare_def split: option.splits)
  then show ?thesis
    by (simp add: trades_placeOrder positions_placeOrder_other)
qed

theorem placeOrder_frame_witness:
  "trades (placeOrder
             (placeOrder initialState \<lparr>o_symbol = XAUUSD, o_qty = 2, o_price = 2350\<rparr> ''t1'' 0)
             \<lparr>o_symbol = EURUSD, o_qty = - 1500, o_price = 1.0900\<rparr> ''t2'' 1000)
     = [\<lparr>trade_id = ''t2'', trade_symbol = EURUSD, trade_qty = 1500, trade_price = 1.0900,
         trade_ts = 1, trade_side = SELL\<rparr>,
        \<lparr>trade_id = ''t1'', trade_symbol = XAUUSD, trade_qty = 2, trade_price = 2350,
         trade_ts = 0, trade_side = BUY\<rparr>]
   \<and> positions (placeOrder
             (placeOrder initialState \<lparr>o_symbol = XAUUSD, o_qty = 2, o_price = 2350\<rparr> ''t1'' 0)
             \<lparr>o_symbol = EURUSD, o_qty = - 1500, o_price = 1.0900\<rparr> ''t2'' 1000) XAUUSD
     = Some \<lparr>pos_symbol = XAUUSD, pos_qty = 2, pos_avgPrice = 2350\<rparr>"
  using placeOrder_frame
      [of "placeOrder initialState \<lparr>o_symbol = XAUUSD, o_qty = 2, o_price = 2350\<rparr> ''t1'' 0"
          "\<lparr>o_symbol = EURUSD, o_qty = - 1500, o_price = 1.0900\<rparr>" "''t2''" 1000]
  by (simp add: placeOrder_def reducer_def prepare_def initialState_def Let_def)

section \<open>Valuation\<close>

lemma UNIV_SymbolCode: "UNIV = {EURUSD, GBPUSD, XAUUSD}"
  by (auto intro: SymbolCode.exhaust)

lemma sum_held:
  "(\<Sum>s \<in> {s. P s}. f s) = (\<Sum>s \<leftarrow> SYMBOLS. if P s then f s else (0::real))"
proof -
  have fin: "finite (UNIV :: SymbolCode set)"
    by (simp add: UNIV_SymbolCode)
  have "(\<Sum>s \<in> {s. P s}. f s) = (\<Sum>s \<in> UNIV. if P s then f s else 0)"
    using sum.inter_filter [OF fin, of f P] by simp
  also have "\<dots> = (\<Sum>s \<leftarrow> SYMBOLS. if P s then f s else 0)"
    by (simp add: UNIV_SymbolCode SYMBOLS_def)
  finally show ?thesis .
qed

text \<open>
  C9: the metrics are functions of the ledger and the last-price table alone.  The
  unrealised P&L of a row is \<open>(last - avg) * qty\<close>, and 0 without a last price; the total
  P&L sums it over the held positions; equity is cash plus \<open>qty * last\<close> over the held
  positions, an unknown price counting as 0; the day change in percent is
  \<open>totalPnl / equity * 100\<close> when equity is positive and 0 otherwise.
\<close>

theorem valuation_formulas:
  "rowPnl qty avg (Some lastPrice) = (lastPrice - avg) * qty
   \<and> rowPnl qty avg None = 0
   \<and> totalPnl (portfolioMetrics st last') =
       (\<Sum>s \<in> {s. positions st s \<noteq> None}.
          rowPnl (pos_qty (the (positions st s))) (pos_avgPrice (the (positions st s))) (last' s))
   \<and> equity (portfolioMetrics st last') =
       cash st + (\<Sum>s \<in> {s. positions st s \<noteq> None}.
                    pos_qty (the (positions st s)) * (case last' s of None \<Rightarrow> 0 | Some l \<Rightarrow> l))
   \<and> dayChangePercent (portfolioMetrics st last') =
       (if equity (portfolioMetrics st last') > 0
        then (totalPnl (portfolioMetrics st last') / equity (portfolioMetrics st last')) * 100
        else 0)"
  by (auto simp: sum_held SYMBOLS_def portfolioMetrics_def calculateTotalPnl_def rowPnl_def Let_def
           split: option.splits)

theorem valuation_formulas_witness:
  "rowPnl 1000 1.0800 (Some 1.0900) = 10
   \<and> totalPnl (portfolioMetrics
        (placeOrder initialState \<lparr>o_symbol = EURUSD, o_qty = 1000, o_price = 1.0800\<rparr> ''t1'' 0)
        examplePrices) = 10
   \<and> equity (portfolioMetrics
        (placeOrder initialState \<lparr>o_symbol = EURUSD, o_qty = 1000, o_price = 1.0800\<rparr> ''t1'' 0)
        examplePrices) = 100010
   \<and> dayChangePercent (portfolioMetrics
        (placeOrder initialState \<lparr>o_symbol = EURUSD, o_qty = 1000, o_price = 1.0800\<rparr> ''t1'' 0)
        examplePrices) = 1000 / 100010"
  using valuation_formulas
      [of 1000 "1.0800" "1.0900"
          "placeOrder initialState \<lparr>o_symbol = EURUSD, o_qty = 1000, o_price = 1.0800\<rparr> ''t1'' 0"
          examplePrices]
  by (simp add: portfolioMetrics_def calculateTotalPnl_def rowPnl_def Let_def SYMBOLS_def
        examplePrices_def placeOrder_def reducer_def prepare_def initialState_def)

section \<open>Feed: fan-out\<close>

lemmas feed_defs =
  run_def start_def stop_def startSim_def initWs_def cleanupWs_def handleReconnect_def
  reconnectTimeout_def subscribe_def unsubscribe_def onOpen_def onMessage_def onError_def
  onClose_def simTick_def simNext_def truthy_def newFeed_def maxReconnectAttempts_def
  reconnectDelay_def FINNHUB_KEY_def mapFromFinnhub_def mapToFinnhub_def SYMBOLS_def Let_def
  getConnectionStatus_def STARTING_PRICES_def Number_toFixed5_def

lemma forEach_cb_char:
  "forEach_cb thr cbs tick seen =
     (seen @ map (\<lambda>cb. (cb, tick))
               (takeWhile (\<lambda>cb. \<not> thr cb tick) cbs
                @ take 1 (dropWhile (\<lambda>cb. \<not> thr cb tick) cbs)),
      list_ex (\<lambda>cb. thr cb tick) cbs)"
  by (induction cbs arbitrary: seen) auto

text \<open>
  C4, as stated, fails: neither delivery path wraps the single callback.  Callbacks 1
  and 2 subscribe to EURUSD in this order and callback 1 throws; the live tick at 1.09
  reaches callback 1 only.  (The earlier two entries are the replays at subscription.)
\<close>

theorem throwing_callback_blocks_later_subscribers:
  "calls (run cb1Throws newFeed
      [Subscribe EURUSD 1 0, Subscribe EURUSD 2 0, Start False, WsOpen 0,
       WsMessage 0 (TradeMsg [\<lparr>d_s = ''OANDA:EUR_USD'', d_p = 1.09, d_t = 1700000005000\<rparr>])])
   = [(1, \<lparr>tick_symbol = EURUSD, tick_price = Some (Num 1.0850), tick_ts = 0\<rparr>),
      (2, \<lparr>tick_symbol = EURUSD, tick_price = Some (Num 1.0850), tick_ts = 0\<rparr>),
      (1, \<lparr>tick_symbol = EURUSD, tick_price = Some (Num 1.09), tick_ts = 1700000005\<rparr>)]"
  by (simp add: feed_defs cb1Throws_def)

text \<open>
  C4 (amended): a delivery invokes the callbacks registered for the tick's instrument in
  registration order, each with the same tick, up to and including the first callback
  that throws; the callbacks registered after it are not invoked for that tick; when no
  callback throws, all of them are invoked.  Both delivery paths, the socket's message
  handler and the generator's interval callback, deliver exactly in this way.
\<close>

theorem fanout_stops_at_first_throwing_callback:
  "forEach_cb thr cbs tick seen =
     (seen @ map (\<lambda>cb. (cb, tick))
               (takeWhile (\<lambda>cb. \<not> thr cb tick) cbs
                @ take 1 (dropWhile (\<lambda>cb. \<not> thr cb tick) cbs)),
      list_ex (\<lambda>cb. thr cb tick) cbs)
   \<and> (\<not> list_ex (\<lambda>cb. thr cb tick) cbs \<longrightarrow>
        fst (forEach_cb thr cbs tick seen) = seen @ map (\<lambda>cb. (cb, tick)) cbs)
   \<and> (i < socketCount w \<and> mapFromFinnhub (d_s d) = Some s \<longrightarrow>
        calls (step thr w (WsMessage i (TradeMsg [d]))) =
          fst (forEach_cb thr (subs w s)
                 \<lparr>tick_symbol = s, tick_price = Some (Num (d_p d)), tick_ts = d_t d div 1000\<rparr>
                 (calls w)))
   \<and> calls (forEach_symbol thr rnd ts [symbol] w) =
        fst (forEach_cb thr (subs w symbol)
               \<lparr>tick_symbol = symbol,
                tick_price = Some (Number_toFixed5 (simNext symbol (prices w symbol) (rnd symbol))),
                tick_ts = ts\<rparr> (calls w))"
proof -
  have all: "fst (forEach_cb thr cbs tick seen) = seen @ map (\<lambda>cb. (cb, tick)) cbs"
    if "\<not> list_ex (\<lambda>cb. thr cb tick) cbs"
  proof -
    from that have none: "\<forall>cb \<in> set cbs. \<not> thr cb tick"
      by (simp add: list_ex_iff)
    then have tw: "takeWhile (\<lambda>cb. \<not> thr cb tick) cbs = cbs"
      and dw: "dropWhile (\<lambda>cb. \<not> thr cb tick) cbs = []"
      by simp_all
    show ?thesis
      unfolding forEach_cb_char tw dw by simp
  qed
  have live: "calls (step thr w (WsMessage i (TradeMsg [d]))) =
          fst (forEach_cb thr (subs w s)
                 \<lparr>tick_symbol = s, tick_price = Some (Num (d_p d)), tick_ts = d_t d div 1000\<rparr>
                 (calls w))"
    if "i < socketCount w" "mapFromFinnhub (d_s d) = Some s"
    using that by (simp add: onMessage_def Let_def)
  have sim: "calls (forEach_symbol thr rnd ts [symbol] w) =
        fst (forEach_cb thr (subs w symbol)
               \<lparr>tick_symbol = symbol,
                tick_price = Some (Number_toFixed5 (simNext symbol (prices w symbol) (rnd symbol))),
                tick_ts = ts\<rparr> (calls w))"
    by (simp add: Let_def)
  from all live sim forEach_cb_char [of thr cbs tick seen] show ?thesis
    by blast
qed

theorem fanout_stops_at_first_throwing_callback_witness:
  "forEach_cb cb1Throws [2, 1, 3] \<lparr>tick_symbol = EURUSD, tick_price = Some (Num 1.09), tick_ts = 5\<rparr> []
     = ([(2, \<lparr>tick_symbol = EURUSD, tick_price = Some (Num 1.09), tick_ts = 5\<rparr>),
         (1, \<lparr>tick_symbol = EURUSD, tick_price = Some (Num 1.09), tick_ts = 5\<rparr>)], True)
   \<and> \<not> list_ex (\<lambda>cb. neverThrows cb \<lparr>tick_symbol = EURUSD, tick_price = Some (Num 1.09), tick_ts = 5\<rparr>)
          [2, 1, 3]
   \<and> fst (forEach_cb neverThrows [2, 1, 3]
             \<lparr>tick_symbol = EURUSD, tick_price = Some (Num 1.09), tick_ts = 5\<rparr> [])
       = [(2, \<lparr>tick_symbol = EURUSD, tick_price = Some (Num 1.09), tick_ts = 5\<rparr>),
          (1, \<lparr>tick_symbol = EURUSD, tick_price = Some (Num 1.09), tick_ts = 5\<rparr>),
          (3, \<lparr>tick_symbol = EURUSD, tick_price = Some (Num 1.09), tick_ts = 5\<rparr>)]
   \<and> 0 < socketCount (run neverThrows newFeed [Subscribe EURUSD 2 0, Start False, WsOpen 0])
   \<and> mapFromFinnhub (d_s \<lparr>d_s = ''OANDA:EUR_USD'', d_p = 1.09, d_t = 1700000005000\<rparr>) = Some EURUSD
   \<and> calls (step neverThrows
               (run neverThrows newFeed [Subscribe EURUSD 2 0, Start False, WsOpen 0])
               (WsMessage 0 (TradeMsg [\<lparr>d_s = ''OANDA:EUR_USD'', d_p = 1.09, d_t = 1700000005000\<rparr>])))
       = [(2, \<lparr>tick_symbol = EURUSD, tick_price = Some (Num 1.0850), tick_ts = 0\<rparr>),
          (2, \<lparr>tick_symbol = EURUSD, tick_price = Some (Num 1.09), tick_ts = 1700000005\<rparr>)]"
  using fanout_stops_at_first_throwing_callback
      [of cb1Throws "[2, 1, 3]" "\<lparr>tick_symbol = EURUSD, tick_price = Some (Num 1.09), tick_ts = 5\<rparr>" "[]"]
    fanout_stops_at_first_throwing_callback
      [of neverThrows "[2, 1, 3]" "\<lparr>tick_symbol = EURUSD, tick_price = Some (Num 1.09), tick_ts = 5\<rparr>" "[]"
          0 "run neverThrows newFeed [Subscribe EURUSD 2 0, Start False, WsOpen 0]"
          "\<lparr>d_s = ''OANDA:EUR_USD'', d_p = 1.09, d_t = 1700000005000\<rparr>" EURUSD]
  by (simp add: feed_defs cb1Throws_def neverThrows_def)

section \<open>Feed: start and stop\<close>

text \<open>
  C5: the code does not do what the claim says.  \<open>stop\<close> clears the interval and closes
  the socket, but no handle of a reconnect timeout is ever kept, so none is cancelled.
  First run: the connection fails (error, then close), which schedules reconnects;
  \<open>stop()\<close> is called; the timeout of 1000 ms is still pending after \<open>stop()\<close> and, when
  it comes due, opens socket 1, over which a live tick reaches subscriber 7.  Second
  run: \<open>stop()\<close> on an open connection closes the socket, and the close event itself
  schedules a reconnect that opens socket 1.
\<close>

theorem reconnect_timer_survives_stop:
  "timeouts (run neverThrows newFeed
      [Subscribe EURUSD 7 0, Start False, WsError 0, WsClose 0, Stop]) = [(1, 1000), (2, 2000)]
   \<and> ws (run neverThrows newFeed
      [Subscribe EURUSD 7 0, Start False, WsError 0, WsClose 0, Stop]) = None
   \<and> ws (run neverThrows newFeed
      [Subscribe EURUSD 7 0, Start False, WsError 0, WsClose 0, Stop,
       TimeoutFires 1 False]) = Some 1
   \<and> calls (run neverThrows newFeed
      [Subscribe EURUSD 7 0, Start False, WsError 0, WsClose 0, Stop,
       TimeoutFires 1 False, WsOpen 1, WsMessage 1 (TradeMsg [\<lparr>d_s = ''OANDA:EUR_USD'', d_p = 1.09, d_t = 1700000005000\<rparr>])])
     = [(7, \<lparr>tick_symbol = EURUSD, tick_price = Some (Num 1.0850), tick_ts = 0\<rparr>),
        (7, \<lparr>tick_symbol = EURUSD, tick_price = Some (Num 1.09), tick_ts = 1700000005\<rparr>)]
   \<and> timeouts (run neverThrows newFeed [Start False, WsOpen 0, Stop, WsClose 0]) = [(1, 1000)]
   \<and> ws (run neverThrows newFeed
      [Start False, WsOpen 0, Stop, WsClose 0, TimeoutFires 1 False]) = Some 1
   \<and> isConnected (run neverThrows newFeed
      [Start False, WsOpen 0, Stop, WsClose 0, TimeoutFires 1 False, WsOpen 1])"
  by (simp add: feed_defs neverThrows_def)

text \<open>
  C6: the code does not do what the claim says.  A second \<open>start()\<close> finds \<open>this.ws\<close>
  set, takes the \<open>else\<close> branch and starts the generator: no second socket is created,
  but the interval now runs beside the live socket, and subscriber 7 receives a
  generated tick and a live tick in the same run.
\<close>

theorem second_start_runs_generator_beside_socket:
  "ws (run neverThrows newFeed [Start False, Start False]) = Some 0
   \<and> socketCount (run neverThrows newFeed [Start False, Start False]) = 1
   \<and> timer (run neverThrows newFeed [Start False, Start False]) = Some 1
   \<and> intervals (run neverThrows newFeed [Start False, Start False]) = [1]
   \<and> run neverThrows newFeed [Start False, Start False] \<noteq> run neverThrows newFeed [Start False]
   \<and> calls (run neverThrows newFeed
        [Subscribe EURUSD 7 0, Start False, WsOpen 0, Start False,
         IntervalFires 1 halfDraws 1700000004000, WsMessage 0 (TradeMsg [\<lparr>d_s = ''OANDA:EUR_USD'', d_p = 1.09, d_t = 1700000005000\<rparr>])])
     = [(7, \<lparr>tick_symbol = EURUSD, tick_price = Some (Num 1.0850), tick_ts = 0\<rparr>),
        (7, \<lparr>tick_symbol = EURUSD, tick_price = Some (Num 1.0850), tick_ts = 1700000004\<rparr>),
        (7, \<lparr>tick_symbol = EURUSD, tick_price = Some (Num 1.09), tick_ts = 1700000005\<rparr>)]"
proof -
  have neq: "\<And>a b :: World. timer a \<noteq> timer b \<Longrightarrow> a \<noteq> b"
    by auto
  have "run neverThrows newFeed [Start False, Start False] \<noteq> run neverThrows newFeed [Start False]"
    by (rule neq) (simp add: feed_defs)
  moreover have "toFixed5 (217 / 200) = 217 / 200"
    by (simp add: toFixed5_def)
  ultimately show ?thesis
    by (simp add: feed_defs neverThrows_def halfDraws_def)
qed

section \<open>Feed: reconnect backoff and cap\<close>

lemma forEach_data_frame:
  "reconnectAttempts (forEach_data thr ds w) = reconnectAttempts w
   \<and> timeouts (forEach_data thr ds w) = timeouts w"
  by (induction ds arbitrary: w) (auto simp: Let_def split: option.splits)

lemma forEach_symbol_frame:
  "reconnectAttempts (forEach_symbol thr rnd ts ss w) = reconnectAttempts w
   \<and> timeouts (forEach_symbol thr rnd ts ss w) = timeouts w"
  by (induction ss arbitrary: w) (auto simp: Let_def)

lemma backoff_inv_handleReconnect:
  assumes "backoff_inv w"
  shows "backoff_inv (handleReconnect w)"
proof (cases "reconnectAttempts w < maxReconnectAttempts")
  case True
  then have "Suc (reconnectAttempts w) \<in> set [1..<Suc maxReconnectAttempts]"
    by auto
  then have "reconnectDelay * Suc (reconnectAttempts w)
               \<in> set (map (\<lambda>n. reconnectDelay * n) [1..<Suc maxReconnectAttempts])"
    by (simp only: set_map image_eqI)
  with True assms show ?thesis
    by (simp add: backoff_inv_def handleReconnect_def Let_def)
next
  case False
  with assms show ?thesis
    by (simp add: backoff_inv_def handleReconnect_def startSim_def)
qed

lemma backoff_inv_step: "backoff_inv w \<Longrightarrow> backoff_inv (step thr w ev)"
proof (cases ev)
  case (WsError i)
  assume "backoff_inv w"
  then have "backoff_inv (w\<lparr>isConnected := False\<rparr>)" by (simp add: backoff_inv_def)
  then show ?thesis using WsError \<open>backoff_inv w\<close>
    by (auto simp: onError_def intro: backoff_inv_handleReconnect)
next
  case (WsClose i)
  assume "backoff_inv w"
  then have "backoff_inv (cleanupWs (w\<lparr>isConnected := False\<rparr>))"
    by (simp add: backoff_inv_def cleanupWs_def Let_def split: option.splits)
  then show ?thesis using WsClose \<open>backoff_inv w\<close>
    by (auto simp: onClose_def intro: backoff_inv_handleReconnect)
next
  case (TimeoutFires t c)
  assume "backoff_inv w"
  then show ?thesis using TimeoutFires
    by (auto simp: backoff_inv_def reconnectTimeout_def initWs_def list_all_iff)
next
  case (WsMessage i m)
  assume "backoff_inv w"
  then show ?thesis using WsMessage
    by (cases m) (auto simp: backoff_inv_def onMessage_def forEach_data_frame)
next
  case (IntervalFires t rnd now)
  assume "backoff_inv w"
  then show ?thesis using IntervalFires
    by (auto simp: backoff_inv_def simTick_def forEach_symbol_frame)
qed (auto simp: backoff_inv_def start_def stop_def startSim_def initWs_def cleanupWs_def
      subscribe_def unsubscribe_def onOpen_def Let_def split: option.splits)

lemma backoff_inv_run: "backoff_inv w \<Longrightarrow> backoff_inv (run thr w evs)"
  unfolding run_def by (induction evs arbitrary: w) (auto intro: backoff_inv_step)

lemma backoff_inv_newFeed: "backoff_inv newFeed"
  by (simp add: backoff_inv_def newFeed_def)

lemma truthy_startSim: "truthy (timer (startSim w))"
  by (simp add: startSim_def truthy_def)

text \<open>
  When each failed connection raises a close event only, five failures in a row do not
  start the generator: after the fifth the fifth reconnect is pending at 5000 ms and
  opens a sixth socket; the sixth failure starts the generator.
\<close>

theorem five_failures_do_not_fall_back:
  "timer (run neverThrows newFeed
      [Start False, WsClose 0, TimeoutFires 1 False, WsClose 1, TimeoutFires 2 False,
       WsClose 2, TimeoutFires 3 False, WsClose 3, TimeoutFires 4 False, WsClose 4]) = None
   \<and> timeouts (run neverThrows newFeed
      [Start False, WsClose 0, TimeoutFires 1 False, WsClose 1, TimeoutFires 2 False,
       WsClose 2, TimeoutFires 3 False, WsClose 3, TimeoutFires 4 False, WsClose 4])
     = [(5, 5000)]
   \<and> ws (run neverThrows newFeed
      [Start False, WsClose 0, TimeoutFires 1 False, WsClose 1, TimeoutFires 2 False,
       WsClose 2, TimeoutFires 3 False, WsClose 3, TimeoutFires 4 False, WsClose 4,
       TimeoutFires 5 False]) = Some 5
   \<and> timer (run neverThrows newFeed
      [Start False, WsClose 0, TimeoutFires 1 False, WsClose 1, TimeoutFires 2 False,
       WsClose 2, TimeoutFires 3 False, WsClose 3, TimeoutFires 4 False, WsClose 4,
       TimeoutFires 5 False, WsClose 5]) = Some 6"
  by (simp add: feed_defs)

text \<open>
  What holds of the backoff in every run: the attempt counter stays at most
  \<open>maxReconnectAttempts\<close> = 5 and every pending reconnect has the delay
  \<open>reconnectDelay * n\<close> of an attempt \<open>n\<close> from 1 to 5.  A failure event (error or close)
  that finds the counter at \<open>a < 5\<close> schedules exactly one reconnect with the delay
  \<open>reconnectDelay * (a + 1)\<close> and does not start the generator; one that finds the
  counter at 5 schedules none and leaves the generator running.  After a close event
  the status reports \<open>usingWebSocket = false\<close> and \<open>isConnected = false\<close>.
\<close>

theorem reconnect_backoff_and_cap:
  "reconnectAttempts (run thr newFeed evs) \<le> maxReconnectAttempts
   \<and> list_all (\<lambda>(t, d). d \<in> set (map (\<lambda>n. reconnectDelay * n) [1..<Suc maxReconnectAttempts]))
        (timeouts (run thr newFeed evs))
   \<and> (reconnectAttempts w < maxReconnectAttempts \<longrightarrow>
        timeouts (onError w)
          = timeouts w @ [(Suc (timerCount w), reconnectDelay * Suc (reconnectAttempts w))]
        \<and> timeouts (onClose w)
          = timeouts w @ [(Suc (timerCount w), reconnectDelay * Suc (reconnectAttempts w))]
        \<and> reconnectAttempts (onError w) = Suc (reconnectAttempts w)
        \<and> reconnectAttempts (onClose w) = Suc (reconnectAttempts w)
        \<and> timer (onError w) = timer w \<and> timer (onClose w) = timer w)
   \<and> (reconnectAttempts w' = maxReconnectAttempts \<longrightarrow>
        timeouts (onError w') = timeouts w' \<and> timeouts (onClose w') = timeouts w'
        \<and> reconnectAttempts (onError w') = maxReconnectAttempts
        \<and> reconnectAttempts (onClose w') = maxReconnectAttempts
        \<and> truthy (timer (onError w')) \<and> truthy (timer (onClose w')))
   \<and> (i < socketCount w' \<longrightarrow>
        st_usingWebSocket (getConnectionStatus (step thr w' (WsClose i))) = False
        \<and> st_isConnected (getConnectionStatus (step thr w' (WsClose i))) = False)"
proof -
  have "backoff_inv (run thr newFeed evs)"
    by (rule backoff_inv_run [OF backoff_inv_newFeed])
  moreover have "truthy (timer (onError w')) \<and> truthy (timer (onClose w'))"
    if "reconnectAttempts w' = maxReconnectAttempts"
    using that
    by (simp add: onError_def onClose_def cleanupWs_def handleReconnect_def truthy_startSim Let_def
          split: option.splits)
  moreover have "i < socketCount w' \<Longrightarrow>
        st_usingWebSocket (getConnectionStatus (step thr w' (WsClose i))) = False
        \<and> st_isConnected (getConnectionStatus (step thr w' (WsClose i))) = False"
    by (auto simp: getConnectionStatus_def onClose_def handleReconnect_def cleanupWs_def startSim_def
          Let_def split: option.splits)
  ultimately show ?thesis
    by (auto simp: backoff_inv_def onError_def onClose_def cleanupWs_def handleReconnect_def Let_def
          startSim_def split: option.splits)
qed

theorem reconnect_backoff_and_cap_witness:
  "reconnectAttempts (run neverThrows newFeed
      [Start False, WsClose 0, TimeoutFires 1 False, WsClose 1, TimeoutFires 2 False]) = 2
   \<and> reconnectAttempts (run neverThrows newFeed [Start False, WsClose 0]) < maxReconnectAttempts
   \<and> timeouts (onClose (run neverThrows newFeed [Start False, WsClose 0])) = [(1, 1000), (2, 2000)]
   \<and> timer (onClose (run neverThrows newFeed [Start False, WsClose 0])) = None
   \<and> reconnectAttempts (run neverThrows newFeed
        [Start False, WsClose 0, TimeoutFires 1 False, WsClose 1, TimeoutFires 2 False,
         WsClose 2, TimeoutFires 3 False, WsClose 3, TimeoutFires 4 False, WsClose 4,
         TimeoutFires 5 False]) = maxReconnectAttempts
   \<and> timeouts (onClose (run neverThrows newFeed
        [Start False, WsClose 0, TimeoutFires 1 False, WsClose 1, TimeoutFires 2 False,
         WsClose 2, TimeoutFires 3 False, WsClose 3, TimeoutFires 4 False, WsClose 4,
         TimeoutFires 5 False])) = []
   \<and> truthy (timer (onClose (run neverThrows newFeed
        [Start False, WsClose 0, TimeoutFires 1 False, WsClose 1, TimeoutFires 2 False,
         WsClose 2, TimeoutFires 3 False, WsClose 3, TimeoutFires 4 False, WsClose 4,
         TimeoutFires 5 False])))
   \<and> 5 < socketCount (run neverThrows newFeed
        [Start False, WsClose 0, TimeoutFires 1 False, WsClose 1, TimeoutFires 2 False,
         WsClose 2, TimeoutFires 3 False, WsClose 3, TimeoutFires 4 False, WsClose 4,
         TimeoutFires 5 False])
   \<and> st_usingWebSocket (getConnectionStatus (step neverThrows (run neverThrows newFeed
        [Start False, WsClose 0, TimeoutFires 1 False, WsClose 1, TimeoutFires 2 False,
         WsClose 2, TimeoutFires 3 False, WsClose 3, TimeoutFires 4 False, WsClose 4,
         TimeoutFires 5 False]) (WsClose 5))) = False"
  using reconnect_backoff_and_cap
      [of neverThrows
          "[Start False, WsClose 0, TimeoutFires 1 False, WsClose 1, TimeoutFires 2 False]"
          "run neverThrows newFeed [Start False, WsClose 0]"
          "run neverThrows newFeed
            [Start False, WsClose 0, TimeoutFires 1 False, WsClose 1, TimeoutFires 2 False,
             WsClose 2, TimeoutFires 3 False, WsClose 3, TimeoutFires 4 False, WsClose 4,
             TimeoutFires 5 False]"
          5]
  by (simp add: feed_defs)

text \<open>
  C7: the code does not do what the claim says.  A failed connection raises an error
  event and then a close event, and both listeners call \<open>handleReconnect\<close>: every failed
  connection counts as two attempts and schedules two reconnects, and no handle of a
  reconnect timeout is kept.  Sockets 0, 1 and 2 fail in this way.  With the close of
  socket 2 the counter stands at 5 and the generator is started, after three failed
  connections, while the reconnects of 3000, 4000 and 5000 ms are still pending.
  Without any \<open>start()\<close> the first of them opens socket 3; it connects, the counter
  is back at 0, the status reports \<open>isConnected\<close> with \<open>usingWebSocket = false\<close>, and
  subscriber 7 receives a generated tick and a live tick: the fallback is not permanent.
\<close>

theorem fallback_is_not_permanent:
  "timer (run neverThrows newFeed
      [Subscribe EURUSD 7 0, Start False, WsError 0, WsClose 0, TimeoutFires 1 False,
       WsError 1, WsClose 1, TimeoutFires 2 False, WsError 2, WsClose 2]) = Some 6
   \<and> socketCount (run neverThrows newFeed
      [Subscribe EURUSD 7 0, Start False, WsError 0, WsClose 0, TimeoutFires 1 False,
       WsError 1, WsClose 1, TimeoutFires 2 False, WsError 2, WsClose 2]) = 3
   \<and> timeouts (run neverThrows newFeed
      [Subscribe EURUSD 7 0, Start False, WsError 0, WsClose 0, TimeoutFires 1 False,
       WsError 1, WsClose 1, TimeoutFires 2 False, WsError 2, WsClose 2]) = [(3, 3000), (4, 4000), (5, 5000)]
   \<and> getConnectionStatus (run neverThrows newFeed
      [Subscribe EURUSD 7 0, Start False, WsError 0, WsClose 0, TimeoutFires 1 False,
       WsError 1, WsClose 1, TimeoutFires 2 False, WsError 2, WsClose 2])
     = \<lparr>st_isConnected = False, st_usingWebSocket = False, st_reconnectAttempts = 5\<rparr>
   \<and> ws (run neverThrows newFeed
      [Subscribe EURUSD 7 0, Start False, WsError 0, WsClose 0, TimeoutFires 1 False,
       WsError 1, WsClose 1, TimeoutFires 2 False, WsError 2, WsClose 2,
       TimeoutFires 3 False]) = Some 3
   \<and> getConnectionStatus (run neverThrows newFeed
      [Subscribe EURUSD 7 0, Start False, WsError 0, WsClose 0, TimeoutFires 1 False,
       WsError 1, WsClose 1, TimeoutFires 2 False, WsError 2, WsClose 2,
       TimeoutFires 3 False, WsOpen 3])
     = \<lparr>st_isConnected = True, st_usingWebSocket = False, st_reconnectAttempts = 0\<rparr>
   \<and> intervals (run neverThrows newFeed
      [Subscribe EURUSD 7 0, Start False, WsError 0, WsClose 0, TimeoutFires 1 False,
       WsError 1, WsClose 1, TimeoutFires 2 False, WsError 2, WsClose 2,
       TimeoutFires 3 False, WsOpen 3]) = [6]
   \<and> calls (run neverThrows newFeed
      [Subscribe EURUSD 7 0, Start False, WsError 0, WsClose 0, TimeoutFires 1 False,
       WsError 1, WsClose 1, TimeoutFires 2 False, WsError 2, WsClose 2,
       TimeoutFires 3 False, WsOpen 3, IntervalFires 6 halfDraws 1700000004000,
       WsMessage 3 (TradeMsg [\<lparr>d_s = ''OANDA:EUR_USD'', d_p = 1.09, d_t = 1700000005000\<rparr>])])
     = [(7, \<lparr>tick_symbol = EURUSD, tick_price = Some (Num 1.0850), tick_ts = 0\<rparr>),
        (7, \<lparr>tick_symbol = EURUSD, tick_price = Some (Num 1.0850), tick_ts = 1700000004\<rparr>),
        (7, \<lparr>tick_symbol = EURUSD, tick_price = Some (Num 1.09), tick_ts = 1700000005\<rparr>)]"
proof -
  have "toFixed5 (217 / 200) = 217 / 200"
    by (simp add: toFixed5_def)
  then show ?thesis
    by (simp add: feed_defs neverThrows_def halfDraws_def)
qed

section \<open>Feed: prices of the synthetic generator\<close>

lemma toFixed5_nonneg: "0 \<le> x \<Longrightarrow> 0 \<le> toFixed5 x"
  by (auto simp: toFixed5_def)

lemma toFixed5_pos_iff:
  assumes "0 \<le> x"
  shows "(0 < toFixed5 x) = (1 / 200000 \<le> x)"
proof (cases "\<bar>x\<bar> \<ge> 10 ^ 21")
  case True
  with assms show ?thesis by (simp add: toFixed5_def)
next
  case False
  have "(0 < \<lfloor>x * 100000 + 1 / 2\<rfloor>) = (1 \<le> x * 100000 + 1 / 2)"
    by linarith
  also have "\<dots> = (1 / 200000 \<le> x)"
    by auto
  finally show ?thesis
    using False assms by (simp add: toFixed5_def)
qed

lemma toFixed5_small:
  assumes "0 \<le> x" "x < 1 / 200000"
  shows "toFixed5 x = 0"
proof -
  from assms have "\<lfloor>x * 100000 + 1 / 2\<rfloor> = 0"
    by (intro floor_unique) auto
  with assms show ?thesis
    by (simp add: toFixed5_def)
qed

lemma positive_Num: "positive v = (\<exists>p. v = Some (Num p) \<and> 0 < p)"
  by (auto simp: positive_def split: option.splits number.splits)

lemma simNext_pos:
  assumes "0 < p" "0 \<le> r" "r < 1"
  shows "\<exists>q. simNext s (Some (Num p)) r = Num q \<and> 0 < q"
proof -
  have "0 < 1 + (r - 0.5) * (if s = XAUUSD then 0.004 else 0.0003)"
    using assms by (cases "s = XAUUSD") (simp_all add: field_simps)
  with assms(1) have "0 < p * (1 + (r - 0.5) * (if s = XAUUSD then 0.004 else 0.0003))"
    by (rule mult_pos_pos)
  then show ?thesis
    by (simp add: simNext_def Let_def del: distrib_left_numeral)
qed

lemma calls_forEach_cb:
  "list_all (\<lambda>(cb, t). P t) seen \<Longrightarrow> P tick
   \<Longrightarrow> list_all (\<lambda>(cb, t). P t) (fst (forEach_cb thr cbs tick seen))"
  by (simp add: forEach_cb_char list_all_iff) (auto dest: set_takeWhileD in_set_takeD set_dropWhileD)

lemma price_inv_forEach_symbol:
  assumes "\<forall>s. 0 \<le> rnd s \<and> rnd s < 1"
  shows "price_inv s w \<Longrightarrow> price_inv s (forEach_symbol thr rnd ts ss w)"
proof (induction ss arbitrary: w)
  case Nil
  then show ?case by simp
next
  case (Cons symbol rest)
  let ?P = "\<lambda>t. tick_symbol t \<noteq> s \<or> nonneg (tick_price t)"
  let ?next = "simNext symbol (prices w symbol) (rnd symbol)"
  let ?tick = "\<lparr>tick_symbol = symbol, tick_price = Some (Number_toFixed5 ?next), tick_ts = ts\<rparr>"
  let ?w1 = "w\<lparr>prices := (prices w)(symbol := Some ?next)\<rparr>"
  let ?w2 = "?w1\<lparr>calls := fst (forEach_cb thr (subs ?w1 symbol) ?tick (calls ?w1))\<rparr>"
  have new: "positive (prices ?w1 s) \<and> ?P ?tick"
  proof (cases "symbol = s")
    case True
    from Cons.prems obtain p where p: "prices w s = Some (Num p)" "0 < p"
      by (auto simp: price_inv_def positive_Num)
    from assms p(2) obtain q where q: "simNext s (Some (Num p)) (rnd s) = Num q" "0 < q"
      using simNext_pos [of p "rnd s" s] by auto
    with True p show ?thesis
      by (simp add: positive_def nonneg_def Number_toFixed5_def toFixed5_nonneg)
  next
    case False
    with Cons.prems show ?thesis
      by (simp add: price_inv_def)
  qed
  from Cons.prems new have "list_all (\<lambda>(cb, t). ?P t)
                          (fst (forEach_cb thr (subs ?w1 symbol) ?tick (calls ?w1)))"
    by (intro calls_forEach_cb) (simp_all add: price_inv_def)
  with new have w2: "price_inv s ?w2"
    by (simp add: price_inv_def)
  show ?case
  proof (cases "snd (forEach_cb thr (subs ?w1 symbol) ?tick (calls ?w1))")
    case True
    with w2 show ?thesis by (simp add: Let_def)
  next
    case False
    with Cons.IH [OF w2] show ?thesis by (simp add: Let_def)
  qed
qed

lemma price_inv_forEach_data:
  "list_all (\<lambda>d. 0 < d_p d) ds \<Longrightarrow> price_inv s w \<Longrightarrow> price_inv s (forEach_data thr ds w)"
proof (induction ds arbitrary: w)
  case Nil
  then show ?case by simp
next
  case (Cons d ds)
  show ?case
  proof (cases "mapFromFinnhub (d_s d)")
    case None
    with Cons show ?thesis by simp
  next
    case (Some s')
    let ?P = "\<lambda>t. tick_symbol t \<noteq> s \<or> nonneg (tick_price t)"
    let ?tick = "\<lparr>tick_symbol = s', tick_price = Some (Num (d_p d)), tick_ts = d_t d div 1000\<rparr>"
    let ?w1 = "w\<lparr>prices := (prices w)(s' := tick_price ?tick)\<rparr>"
    let ?w2 = "?w1\<lparr>calls := fst (forEach_cb thr (subs ?w1 s') ?tick (calls ?w1))\<rparr>"
    from Cons.prems have new: "positive (prices ?w1 s) \<and> ?P ?tick"
      by (simp add: price_inv_def positive_def nonneg_def)
    from Cons.prems new have "list_all (\<lambda>(cb, t). ?P t)
                          (fst (forEach_cb thr (subs ?w1 s') ?tick (calls ?w1)))"
      by (intro calls_forEach_cb) (simp_all add: price_inv_def)
    with new have w2: "price_inv s ?w2"
      by (simp add: price_inv_def)
    show ?thesis
    proof (cases "snd (forEach_cb thr (subs ?w1 s') ?tick (calls ?w1))")
      case True
      with w2 Some show ?thesis by (simp add: Let_def)
    next
      case False
      with Cons.IH [OF _ w2] Cons.prems(1) Some show ?thesis by (simp add: Let_def)
    qed
  qed
qed

lemma all_symbols: "list_all P SYMBOLS = (\<forall>s. P s)"
proof -
  have "set SYMBOLS = UNIV"
    by (auto simp: SYMBOLS_def intro: SymbolCode.exhaust)
  then show ?thesis by (simp add: list_all_iff)
qed

lemma positive_nonneg: "positive v \<Longrightarrow> nonneg v"
  by (auto simp: positive_def nonneg_def split: option.splits number.splits)

lemma price_inv_step: "positive_inputs ev \<Longrightarrow> price_inv s w \<Longrightarrow> price_inv s (step thr w ev)"
proof (cases ev)
  case (WsMessage i m)
  assume "positive_inputs ev" "price_inv s w"
  with WsMessage show ?thesis
    by (cases m) (auto simp: onMessage_def intro: price_inv_forEach_data)
next
  case (IntervalFires t rnd now)
  assume "positive_inputs ev" "price_inv s w"
  with IntervalFires show ?thesis
    by (auto simp: simTick_def all_symbols intro: price_inv_forEach_symbol)
next
  case (Subscribe s' cb now)
  assume "positive_inputs ev" "price_inv s w"
  with Subscribe show ?thesis
    by (auto simp: subscribe_def price_inv_def Let_def intro: positive_nonneg)
qed (auto simp: price_inv_def start_def stop_def startSim_def initWs_def cleanupWs_def
      unsubscribe_def onOpen_def onError_def onClose_def handleReconnect_def reconnectTimeout_def
      Let_def split: option.splits)

lemma price_inv_run:
  "list_all positive_inputs evs \<Longrightarrow> price_inv s w \<Longrightarrow> price_inv s (run thr w evs)"
  unfolding run_def by (induction evs arbitrary: w) (auto intro: price_inv_step)

lemma price_inv_newFeed: "positive (STARTING_PRICES s) \<Longrightarrow> price_inv s newFeed"
  by (simp add: price_inv_def newFeed_def)

text \<open>
  The symbol without a seed: the replay at subscription carries \<open>undefined\<close>, and the
  generator stores and emits \<open>NaN\<close> for it.
\<close>

lemma unseeded_symbol_ticks_are_not_numbers:
  "calls (run neverThrows newFeed
      [Subscribe XAUUSD 9 0, Start True, IntervalFires 1 halfDraws 1700000004000])
   = [(9, \<lparr>tick_symbol = XAUUSD, tick_price = None, tick_ts = 0\<rparr>),
      (9, \<lparr>tick_symbol = XAUUSD, tick_price = Some NaN, tick_ts = 1700000004\<rparr>)]"
  by (simp add: feed_defs neverThrows_def halfDraws_def)

subsection \<open>A long falling run\<close>

lemma run_append: "run thr w (xs @ ys) = run thr (run thr w xs) ys"
  by (simp add: run_def)

lemma run_Cons: "run thr w (x # xs) = run thr (step thr w x) xs"
  by (simp add: run_def)

lemma zero_tick:
  assumes "subs w EURUSD = [c]" "subs w GBPUSD = []" "subs w XAUUSD = []" "t \<in> set (intervals w)"
  shows "step neverThrows w (IntervalFires t zeroDraws now) =
           w\<lparr>prices := (\<lambda>s. Some (simNext s (prices w s) 0)),
             calls := calls w @
               [(c, \<lparr>tick_symbol = EURUSD,
                     tick_price = Some (Number_toFixed5 (simNext EURUSD (prices w EURUSD) 0)),
                     tick_ts = now div 1000\<rparr>)]\<rparr>"
proof -
  have "(prices w)(EURUSD := Some (simNext EURUSD (prices w EURUSD) 0),
                   GBPUSD := Some (simNext GBPUSD (prices w GBPUSD) 0),
                   XAUUSD := Some (simNext XAUUSD (prices w XAUUSD) 0))
          = (\<lambda>s. Some (simNext s (prices w s) 0))"
    by (rule ext) (auto intro: SymbolCode.exhaust)
  with assms show ?thesis
    by (simp add: simTick_def SYMBOLS_def Let_def neverThrows_def zeroDraws_def)
qed

lemma simNext_zero_EURUSD: "simNext EURUSD (Some (Num p)) 0 = Num (p * (19997 / 20000))"
  by (simp add: simNext_def)

lemma zero_run:
  assumes "subs w EURUSD = [c]" "subs w GBPUSD = []" "subs w XAUUSD = []" "t \<in> set (intervals w)"
    and "prices w EURUSD = Some (Num p)"
  shows "last (calls (run neverThrows w (replicate (Suc n) (IntervalFires t zeroDraws now)))) =
           (c, \<lparr>tick_symbol = EURUSD,
                tick_price = Some (Num (toFixed5 (p * (19997 / 20000) ^ Suc n))),
                tick_ts = now div 1000\<rparr>)"
  using assms
proof (induction n arbitrary: w p)
  case 0
  then show ?case
    by (simp add: run_def zero_tick simNext_zero_EURUSD Number_toFixed5_def del: step.simps)
next
  case (Suc n)
  let ?w = "step neverThrows w (IntervalFires t zeroDraws now)"
  have w: "?w = w\<lparr>prices := (\<lambda>s. Some (simNext s (prices w s) 0)),
             calls := calls w @
               [(c, \<lparr>tick_symbol = EURUSD,
                     tick_price = Some (Number_toFixed5 (simNext EURUSD (prices w EURUSD) 0)),
                     tick_ts = now div 1000\<rparr>)]\<rparr>"
    using Suc.prems(1-4) by (rule zero_tick)
  have pw: "prices ?w EURUSD = Some (Num (p * (19997 / 20000)))"
    by (simp add: w Suc.prems(5) simNext_zero_EURUSD del: step.simps)
  have "last (calls (run neverThrows ?w (replicate (Suc n) (IntervalFires t zeroDraws now)))) =
           (c, \<lparr>tick_symbol = EURUSD,
                tick_price = Some (Num (toFixed5 (p * (19997 / 20000) * (19997 / 20000) ^ Suc n))),
                tick_ts = now div 1000\<rparr>)"
    by (rule Suc.IH [OF _ _ _ _ pw]) (simp_all add: w Suc.prems del: step.simps)
  then show ?case
    by (simp add: run_Cons mult.assoc del: step.simps)
qed

lemma zero_run_pos:
  assumes "k = 19997 / 20000"
    and "subs w EURUSD = [c]" "subs w GBPUSD = []" "subs w XAUUSD = []" "t \<in> set (intervals w)"
    and "prices w EURUSD = Some (Num p)"
    and "0 < n"
  shows "last (calls (run neverThrows w (replicate n (IntervalFires t zeroDraws now)))) =
           (c, \<lparr>tick_symbol = EURUSD, tick_price = Some (Num (toFixed5 (p * k ^ n))),
                tick_ts = now div 1000\<rparr>)"
proof -
  from \<open>0 < n\<close> obtain m where "n = Suc m"
    by (cases n) auto
  with zero_run [OF assms(2-6), of m now] assms(1) show ?thesis
    by (simp only:)
qed

text \<open>
  The factor of one falling step, \<open>1 - 0.5 * 0.0003\<close>, raised to \<open>2\<^sup>1\<^sup>7\<close>, by repeated
  squaring with upper bounds of twelve decimals.
\<close>

lemma simFactor_power_bound:
  fixes k :: real
  assumes k_def: "k = 19997 / 20000"
  shows "k ^ 131072 \<le> 1 / 100000000"
proof -
  have k0: "0 \<le> k" by (simp add: k_def)
  have sq: "\<And>n c d. k ^ n \<le> c \<Longrightarrow> c * c \<le> d \<Longrightarrow> k ^ (2 * n) \<le> d"
  proof -
    fix n :: nat and c d :: real
    assume a: "k ^ n \<le> c" and b: "c * c \<le> d"
    have "k ^ (2 * n) = k ^ n * k ^ n" by (simp add: mult_2 power_add)
    also have "\<dots> \<le> c * c"
    proof (rule mult_mono [OF a a])
      have "0 \<le> k ^ n" using k0 by simp
      with a show "0 \<le> c" by linarith
      show "0 \<le> k ^ n" using k0 by simp
    qed
    finally show "k ^ (2 * n) \<le> d" using b by simp
  qed
  have b0: "k ^ 1 \<le> 19997 / 20000" by (simp add: k_def)
  have b1: "k ^ 2 \<le> 399880009 / 400000000" using sq [OF b0, of "399880009 / 400000000"] by simp
  have b2: "k ^ 4 \<le> 999400134987 / 1000000000000" using sq [OF b1, of "999400134987 / 1000000000000"] by simp
  have b3: "k ^ 8 \<le> 998800629813 / 1000000000000" using sq [OF b2, of "998800629813 / 1000000000000"] by simp
  have b4: "k ^ 16 \<le> 199520539623 / 200000000000" using sq [OF b3, of "199520539623 / 200000000000"] by simp
  have b5: "k ^ 32 \<le> 995211143287 / 1000000000000" using sq [OF b4, of "995211143287 / 1000000000000"] by simp
  have b6: "k ^ 64 \<le> 990445219723 / 1000000000000" using sq [OF b5, of "990445219723 / 1000000000000"] by simp
  have b7: "k ^ 128 \<le> 980981733273 / 1000000000000" using sq [OF b6, of "980981733273 / 1000000000000"] by simp
  have b8: "k ^ 256 \<le> 120290645127 / 125000000000" using sq [OF b7, of "120290645127 / 125000000000"] by simp
  have b9: "k ^ 512 \<le> 37042788621 / 40000000000" using sq [OF b8, of "37042788621 / 40000000000"] by simp
  have b10: "k ^ 1024 \<le> 857605118013 / 1000000000000" using sq [OF b9, of "857605118013 / 1000000000000"] by simp
  have b11: "k ^ 2048 \<le> 735486538443 / 1000000000000" using sq [OF b10, of "735486538443 / 1000000000000"] by simp
  have b12: "k ^ 4096 \<le> 540940448231 / 1000000000000" using sq [OF b11, of "540940448231 / 1000000000000"] by simp
  have b13: "k ^ 8192 \<le> 292616568533 / 1000000000000" using sq [OF b12, of "292616568533 / 1000000000000"] by simp
  have b14: "k ^ 16384 \<le> 85624456181 / 1000000000000" using sq [OF b13, of "85624456181 / 1000000000000"] by simp
  have b15: "k ^ 32768 \<le> 7331547497 / 1000000000000" using sq [OF b14, of "7331547497 / 1000000000000"] by simp
  have b16: "k ^ 65536 \<le> 53751589 / 1000000000000" using sq [OF b15, of "53751589 / 1000000000000"] by simp
  have b17: "k ^ 131072 \<le> 289 / 100000000000" using sq [OF b16, of "289 / 100000000000"] by simp
  from b17 show ?thesis by simp
qed

text \<open>
  C8, as stated, fails in the value of the tick: the stored price of a seeded instrument
  stays positive, but the tick carries the price rounded to five decimals.  The
  connection fails six times and the generator takes over; when \<open>Math.random()\<close>
  returns 0 in 131072 rounds in a row, EURUSD has fallen from its seed 1.0850 below
  0.000005 and the tick delivered to subscriber 7 has the price 0.
\<close>

theorem rounded_tick_price_reaches_zero:
  "last (calls (run neverThrows newFeed
      ([Subscribe EURUSD 7 0, Start False,
        WsClose 0, TimeoutFires 1 False, WsClose 1, TimeoutFires 2 False,
        WsClose 2, TimeoutFires 3 False, WsClose 3, TimeoutFires 4 False,
        WsClose 4, TimeoutFires 5 False, WsClose 5]
       @ replicate 131072 (IntervalFires 6 zeroDraws 1700000000000))))
   = (7, \<lparr>tick_symbol = EURUSD, tick_price = Some (Num 0), tick_ts = 1700000000\<rparr>)"
proof -
  define k :: real where "k = 19997 / 20000"
  define w0 where "w0 = run neverThrows newFeed
      [Subscribe EURUSD 7 0, Start False,
        WsClose 0, TimeoutFires 1 False, WsClose 1, TimeoutFires 2 False,
        WsClose 2, TimeoutFires 3 False, WsClose 3, TimeoutFires 4 False,
        WsClose 4, TimeoutFires 5 False, WsClose 5]"
  have s1: "subs w0 EURUSD = [7]" and s2: "subs w0 GBPUSD = []" and s3: "subs w0 XAUUSD = []"
    and s4: "6 \<in> set (intervals w0)" and p0: "prices w0 EURUSD = Some (Num (217 / 200))"
    by (simp_all add: w0_def feed_defs)
  have n: "0 < (131072 :: nat)"
    by simp
  have kb: "k ^ 131072 \<le> 1 / 100000000"
    using k_def by (rule simFactor_power_bound)
  have "0 \<le> k"
    by (simp add: k_def)
  then have k0: "0 \<le> k ^ 131072"
    by (rule zero_le_power)
  have "toFixed5 (217 / 200 * k ^ 131072) = 0"
  proof (rule toFixed5_small)
    show "0 \<le> 217 / 200 * k ^ 131072"
      using k0 by simp
    have "217 / 200 * k ^ 131072 \<le> 217 / 200 * (1 / 100000000)"
      using kb by (intro mult_left_mono) auto
    then show "217 / 200 * k ^ 131072 < 1 / 200000"
      by simp
  qed
  moreover have "(1700000000000 :: int) div 1000 = 1700000000"
    by simp
  ultimately have "last (calls (run neverThrows w0
                     (replicate 131072 (IntervalFires 6 zeroDraws 1700000000000))))
      = (7, \<lparr>tick_symbol = EURUSD, tick_price = Some (Num 0), tick_ts = 1700000000\<rparr>)"
    using zero_run_pos [OF k_def s1 s2 s3 s4 p0 n, of 1700000000000] by (simp only:)
  then show ?thesis
    by (simp only: run_append w0_def)
qed

text \<open>
  C8 (amended): take an instrument whose seed price is a positive number.  In every run
  in which \<open>Math.random()\<close> returns values in \<open>[0, 1)\<close> and live trades carry positive
  prices, the price the feed stores for the instrument, so every price the generator
  computes for it before rounding, is a strictly positive number, and every tick
  delivered for it carries a number that is at least 0.  The rounded price of a tick is
  strictly positive exactly when the unrounded price is at least 0.000005.
\<close>

theorem generator_prices_stay_positive:
  assumes "positive (STARTING_PRICES s)" and "list_all positive_inputs evs"
  shows "positive (prices (run thr newFeed evs) s)
         \<and> list_all (\<lambda>(cb, tick). tick_symbol tick \<noteq> s \<or> nonneg (tick_price tick))
              (calls (run thr newFeed evs))
         \<and> (0 \<le> x \<longrightarrow> positive (Some (Number_toFixed5 (Num x))) = (1 / 200000 \<le> x))"
proof -
  have "price_inv s (run thr newFeed evs)"
    using assms(2) price_inv_newFeed [OF assms(1)] by (rule price_inv_run)
  then show ?thesis
    by (simp add: price_inv_def positive_def Number_toFixed5_def toFixed5_pos_iff)
qed

theorem generator_prices_stay_positive_witness:
  "positive (STARTING_PRICES EURUSD)
   \<and> list_all positive_inputs
     [Subscribe EURUSD 7 0, Start True, IntervalFires 1 halfDraws 1700000004000,
      IntervalFires 1 zeroDraws 1700000004500]
   \<and> prices (run neverThrows newFeed
     [Subscribe EURUSD 7 0, Start True, IntervalFires 1 halfDraws 1700000004000,
      IntervalFires 1 zeroDraws 1700000004500]) EURUSD = Some (Num (217 / 200 * (19997 / 20000)))
   \<and> calls (run neverThrows newFeed
     [Subscribe EURUSD 7 0, Start True, IntervalFires 1 halfDraws 1700000004000,
      IntervalFires 1 zeroDraws 1700000004500])
     = [(7, \<lparr>tick_symbol = EURUSD, tick_price = Some (Num 1.0850), tick_ts = 0\<rparr>),
        (7, \<lparr>tick_symbol = EURUSD, tick_price = Some (Num 1.0850), tick_ts = 1700000004\<rparr>),
        (7, \<lparr>tick_symbol = EURUSD, tick_price = Some (Num 1.08484), tick_ts = 1700000004\<rparr>)]
   \<and> (0 :: real) \<le> 1 / 250000
   \<and> positive (Some (Number_toFixed5 (Num (1 / 250000)))) = (1 / 200000 \<le> (1 / 250000 :: real))"
proof -
  have p: "positive (STARTING_PRICES EURUSD)"
    by (simp add: positive_def STARTING_PRICES_def)
  have h: "list_all positive_inputs
     [Subscribe EURUSD 7 0, Start True, IntervalFires 1 halfDraws 1700000004000,
      IntervalFires 1 zeroDraws 1700000004500]"
    by (simp add: SYMBOLS_def halfDraws_def zeroDraws_def)
  have r1: "toFixed5 (217 / 200) = 217 / 200"
    by (simp add: toFixed5_def)
  have r2: "toFixed5 (217 / 200 * (19997 / 20000)) = 27121 / 25000"
    by (simp add: toFixed5_def)
  have c: "calls (run neverThrows newFeed
     [Subscribe EURUSD 7 0, Start True, IntervalFires 1 halfDraws 1700000004000,
      IntervalFires 1 zeroDraws 1700000004500])
     = [(7, \<lparr>tick_symbol = EURUSD, tick_price = Some (Num 1.0850), tick_ts = 0\<rparr>),
        (7, \<lparr>tick_symbol = EURUSD, tick_price = Some (Num 1.0850), tick_ts = 1700000004\<rparr>),
        (7, \<lparr>tick_symbol = EURUSD, tick_price = Some (Num 1.08484), tick_ts = 1700000004\<rparr>)]"
    using r1 r2 by (simp add: feed_defs neverThrows_def halfDraws_def zeroDraws_def)
  have q: "prices (run neverThrows newFeed
     [Subscribe EURUSD 7 0, Start True, IntervalFires 1 halfDraws 1700000004000,
      IntervalFires 1 zeroDraws 1700000004500]) EURUSD = Some (Num (217 / 200 * (19997 / 20000)))"
    by (simp add: feed_defs neverThrows_def halfDraws_def zeroDraws_def)
  from generator_prices_stay_positive [OF p h, of neverThrows "1 / 250000"] p h c q show ?thesis
    by simp
qed

end
